theory Spec2Isabelle
  imports Main "HOL-Library.Word" "HOL-Library.Monad_Syntax"
begin

unbundle bit_operations_syntax

section \<open>Basic types\<close>

type_synonym byte = "8 word"
type_synonym u16 = "16 word"
type_synonym u32 = "32 word"

text \<open>
  Go errors are values. \<open>Error m\<close> is \<^verbatim>\<open>fmt.Errorf(m, ...)\<close> (the constant part of the
  message identifies the error), \<open>Wrapped m e\<close> is \<^verbatim>\<open>fmt.Errorf(m + ": %w", e)\<close>. A run-time
  panic (an index or a slice bound out of range) is not an error value in Go; it unwinds
  through every caller. In the model it is the result \<open>Panic m\<close>, which \<open>wrap\<close> hands on
  unchanged.
\<close>

datatype error = Error string | Wrapped string error | Panic string

fun wrap :: "string \<Rightarrow> error \<Rightarrow> error" where
  "wrap m (Panic p) = Panic p"
| "wrap m e = Wrapped m e"

fun is_panic :: "error \<Rightarrow> bool" where
  "is_panic (Panic p) = True"
| "is_panic e = False"

text \<open>
  Go's \<^verbatim>\<open>int\<close> is 64 bits wide on every platform the project builds for (amd64, arm64).
  Sums of \<^verbatim>\<open>int\<close>s are written with the wrap-around made explicit.
\<close>

definition int64 :: "int \<Rightarrow> int" where
  "int64 x = (x + 2 ^ 63) mod 2 ^ 64 - 2 ^ 63"

text \<open>\<^verbatim>\<open>xs[i]\<close> and \<^verbatim>\<open>xs[lo:hi]\<close> on a slice whose capacity is its length.\<close>

definition index :: "'a list \<Rightarrow> int \<Rightarrow> error + 'a" where
  "index xs i =
     (if 0 \<le> i \<and> i < int (length xs) then Inr (xs ! nat i)
      else Inl (Panic ''index out of range''))"

definition slice :: "'a list \<Rightarrow> int \<Rightarrow> int \<Rightarrow> error + 'a list" where
  "slice xs lo hi =
     (if 0 \<le> lo \<and> lo \<le> hi \<and> hi \<le> int (length xs)
      then Inr (take (nat (hi - lo)) (drop (nat lo) xs))
      else Inl (Panic ''slice bounds out of range''))"

section \<open>The connection (pkg/connection)\<close>

text \<open>
  \<^verbatim>\<open>Connection\<close> is an interface with a serial and a TCP implementation; both sit on
  hardware outside the program. A connection is modelled by the calls made on it so far
  and by how it answers: the answer to a call may depend on every call before it.
  \<^verbatim>\<open>Write(p)\<close> answers with a count and an error, \<^verbatim>\<open>Open\<close> with an error. \<^verbatim>\<open>Read(n)\<close>
  ``reads exactly n bytes from the connection'' and ``returns error if fewer bytes are
  available'' (both implementations fill a buffer of \<open>n\<close> bytes or return \<^verbatim>\<open>nil\<close> and an
  error): the answer to a read is the bytes by position and the error, and the buffer
  returned holds the first \<open>n\<close> of them, or nothing when there is an error.
\<close>

datatype event = Opened | Closed | Wrote "byte list" | ReadReq int

record connection =
  history :: "event list"
  open_result :: "error option"
  write_result :: "event list \<Rightarrow> byte list \<Rightarrow> int \<times> error option"
  read_result :: "event list \<Rightarrow> int \<Rightarrow> (nat \<Rightarrow> byte) \<times> error option"

definition conn_Open :: "connection \<Rightarrow> connection \<times> error option" where
  "conn_Open c = (c\<lparr>history := history c @ [Opened]\<rparr>, open_result c)"

definition conn_Close :: "connection \<Rightarrow> connection" where
  "conn_Close c = c\<lparr>history := history c @ [Closed]\<rparr>"

definition conn_Write :: "connection \<Rightarrow> byte list \<Rightarrow> connection \<times> int \<times> error option" where
  "conn_Write c p = (c\<lparr>history := history c @ [Wrote p]\<rparr>, write_result c (history c) p)"

definition conn_Read :: "connection \<Rightarrow> int \<Rightarrow> connection \<times> byte list \<times> error option" where
  "conn_Read c n =
     (let (bytes, err) = read_result c (history c) n
      in (c\<lparr>history := history c @ [ReadReq n]\<rparr>,
          (if err = None then map bytes [0..<nat n] else []), err))"

section \<open>The debug port protocol (pkg/protocol)\<close>

subsection \<open>Constants (commands.go)\<close>

definition CMDReadMem :: byte where "CMDReadMem = 0x00"
definition CMDWriteMem :: byte where "CMDWriteMem = 0x01"
definition CMDProgramFlash :: byte where "CMDProgramFlash = 0x10"
definition CMDEraseFlash :: byte where "CMDEraseFlash = 0x11"
definition CMDEraseSector :: byte where "CMDEraseSector = 0x12"
definition CMDProgramSector :: byte where "CMDProgramSector = 0x13"
definition CMDStopCPU :: byte where "CMDStopCPU = 0x20"
definition CMDStartCPU :: byte where "CMDStartCPU = 0x21"
definition CMDEnterDebug :: byte where "CMDEnterDebug = 0x80"
definition CMDExitDebug :: byte where "CMDExitDebug = 0x81"
definition CMDBootRAM :: byte where "CMDBootRAM = 0x90"
definition CMDBootFlash :: byte where "CMDBootFlash = 0x91"
definition CMDRevision :: byte where "CMDRevision = 0xFE"

definition RequestSyncByte :: byte where "RequestSyncByte = 0x55"
definition ResponseSyncByte :: byte where "ResponseSyncByte = 0xAA"

definition PGXcpu65816 :: byte where "PGXcpu65816 = 0x01"
definition PGXcpu680X0 :: byte where "PGXcpu680X0 = 0x02"
definition PGXcpu65C02 :: byte where "PGXcpu65C02 = 0x03"

definition PGXOffSigStart :: int where "PGXOffSigStart = 0"
definition PGXOffSigEnd :: int where "PGXOffSigEnd = 3"
definition PGXOffVersion :: int where "PGXOffVersion = 3"
definition PGXOffAddrStart :: int where "PGXOffAddrStart = 4"
definition PGXOffAddrEnd :: int where "PGXOffAddrEnd = 8"
definition PGXOffData :: int where "PGXOffData = 8"

subsection \<open>Configuration (pkg/config/config.go)\<close>

record Config =
  Port :: string
  CPU :: string
  ChunkSize :: int
  FlashSize :: int
  flashPageSize :: int
  flashSectorSize :: int
  ramSize :: int

definition CPUIsMotorolatype680X0 :: "string \<Rightarrow> bool" where
  "CPUIsMotorolatype680X0 cpu \<longleftrightarrow>
     cpu = ''m68k'' \<or> cpu = ''68000'' \<or> cpu = ''68040'' \<or> cpu = ''68060''"

definition CPUIsM68k32 :: "string \<Rightarrow> bool" where
  "CPUIsM68k32 cpu \<longleftrightarrow> cpu = ''68040'' \<or> cpu = ''68060''"

subsection \<open>The debug port (debugport.go)\<close>

record DebugPort =
  conn :: connection
  config :: Config
  status0 :: byte
  status1 :: byte

definition NewDebugPort :: "connection \<Rightarrow> Config \<Rightarrow> DebugPort" where
  "NewDebugPort c cfg = \<lparr>conn = c, config = cfg, status0 = 0, status1 = 0\<rparr>"



text \<open>
  The first half of \<^verbatim>\<open>transfer\<close>: the length field, the 7-byte header, the checksum and
  the packet. \<^verbatim>\<open>uint16(len(data))\<close> keeps the low 16 bits of the length.
\<close>

definition request_length :: "byte list \<Rightarrow> u16 \<Rightarrow> u16" where
  "request_length data readLength =
     (if length data > 0 then of_nat (length data) else readLength)"

definition request_header :: "byte \<Rightarrow> u32 \<Rightarrow> u16 \<Rightarrow> byte list" where
  "request_header command address len =
     [RequestSyncByte, command,
      ucast (drop_bit 16 address), ucast (drop_bit 8 address), ucast address,
      ucast (drop_bit 8 len), ucast len]"

definition request_lrc :: "byte list \<Rightarrow> byte list \<Rightarrow> byte" where
  "request_lrc header data =
     (let lrc = fold (\<lambda>i lrc. lrc XOR header ! i) [0..<6] 0
      in if length data > 0 then fold (\<lambda>b lrc. lrc XOR b) data lrc else lrc)"

definition request_packet :: "byte \<Rightarrow> u32 \<Rightarrow> byte list \<Rightarrow> u16 \<Rightarrow> byte list" where
  "request_packet command address data readLength =
     (let header = request_header command address (request_length data readLength);
          lrc = request_lrc header data
      in header @ (if length data > 0 then data else []) @ [lrc])"

text \<open>
  The loop that waits for the response sync byte. It runs for as long as the connection
  delivers other bytes, so it need not return: \<open>None\<close> is the run that never ends.
\<close>

partial_function (option) read_sync :: "connection \<Rightarrow> (connection \<times> error option) option" where
  "read_sync c =
     (case conn_Read c 1 of
        (c1, buf, Some e) \<Rightarrow> Some (c1, Some (Wrapped ''failed to read sync byte'' e))
      | (c1, buf, None) \<Rightarrow>
          (case buf of
             [] \<Rightarrow> Some (c1, Some (Panic ''index out of range''))
           | syncByte # rest \<Rightarrow>
               if syncByte \<noteq> ResponseSyncByte then read_sync c1 else Some (c1, None)))"

declare read_sync.simps [code]

definition transfer ::
  "DebugPort \<Rightarrow> byte \<Rightarrow> u32 \<Rightarrow> byte list \<Rightarrow> u16 \<Rightarrow> (DebugPort \<times> (error + byte list)) option" where
  "transfer dp0 command address data readLength =
     (let dp = dp0\<lparr>status0 := 0, status1 := 0\<rparr>;
          packet = request_packet command address data readLength;
          (c1, written, werr) = conn_Write (conn dp) packet;
          dp = dp\<lparr>conn := c1\<rparr>
      in case werr of
           Some e \<Rightarrow> Some (dp, Inl (Wrapped ''failed to write packet'' e))
         | None \<Rightarrow>
           if written \<noteq> int (length packet) then Some (dp, Inl (Error ''incomplete write''))
           else
             (case read_sync c1 of
                None \<Rightarrow> None
              | Some (c2, Some e) \<Rightarrow> Some (dp\<lparr>conn := c2\<rparr>, Inl e)
              | Some (c2, None) \<Rightarrow>
                 (case conn_Read c2 2 of
                    (c3, statusBytes, Some e) \<Rightarrow>
                      Some (dp\<lparr>conn := c3\<rparr>, Inl (Wrapped ''failed to read status bytes'' e))
                  | (c3, statusBytes, None) \<Rightarrow>
                     (case statusBytes of
                        [] \<Rightarrow> Some (dp\<lparr>conn := c3\<rparr>, Inl (Panic ''index out of range''))
                      | [s0] \<Rightarrow>
                          Some (dp\<lparr>conn := c3, status0 := s0\<rparr>, Inl (Panic ''index out of range''))
                      | s0 # s1 # rest \<Rightarrow>
                         (let dp = dp\<lparr>conn := c3, status0 := s0, status1 := s1\<rparr>;
                              (c4, readBytes, rerr) =
                                 (if readLength > 0 then conn_Read c3 (uint readLength)
                                  else (c3, [], None));
                              dp = dp\<lparr>conn := c4\<rparr>
                          in case rerr of
                               Some e \<Rightarrow> Some (dp, Inl (Wrapped ''failed to read data'' e))
                             | None \<Rightarrow>
                                (case conn_Read c4 1 of
                                   (c5, lrc, Some e) \<Rightarrow>
                                     Some (dp\<lparr>conn := c5\<rparr>, Inl (Wrapped ''failed to read LRC'' e))
                                 | (c5, lrc, None) \<Rightarrow>
                                     Some (dp\<lparr>conn := c5\<rparr>, Inr readBytes)))))))"


text \<open>
  The operations built on \<^verbatim>\<open>transfer\<close>. \<^verbatim>\<open>time.Sleep\<close> after the sector commands takes
  time and changes nothing else; it has no counterpart in the model.
\<close>

definition command_only :: "DebugPort \<Rightarrow> byte \<Rightarrow> u32 \<Rightarrow> (DebugPort \<times> error option) option" where
  "command_only dp command address =
     (case transfer dp command address [] 0 of
        None \<Rightarrow> None
      | Some (dp1, Inl e) \<Rightarrow> Some (dp1, Some e)
      | Some (dp1, Inr bs) \<Rightarrow> Some (dp1, None))"

definition EnterDebug :: "DebugPort \<Rightarrow> (DebugPort \<times> error option) option" where
  "EnterDebug dp = command_only dp CMDEnterDebug 0"

definition ExitDebug :: "DebugPort \<Rightarrow> (DebugPort \<times> error option) option" where
  "ExitDebug dp = command_only dp CMDExitDebug 0"

definition StopCPU :: "DebugPort \<Rightarrow> (DebugPort \<times> error option) option" where
  "StopCPU dp = command_only dp CMDStopCPU 0"

definition StartCPU :: "DebugPort \<Rightarrow> (DebugPort \<times> error option) option" where
  "StartCPU dp = command_only dp CMDStartCPU 0"

definition GetRevision :: "DebugPort \<Rightarrow> (DebugPort \<times> (error + byte)) option" where
  "GetRevision dp =
     (case transfer dp CMDRevision 0 [] 0 of
        None \<Rightarrow> None
      | Some (dp1, Inl e) \<Rightarrow> Some (dp1, Inl e)
      | Some (dp1, Inr bs) \<Rightarrow> Some (dp1, Inr (status1 dp1)))"

definition ReadBlock :: "DebugPort \<Rightarrow> u32 \<Rightarrow> u16 \<Rightarrow> (DebugPort \<times> (error + byte list)) option" where
  "ReadBlock dp address len = transfer dp CMDReadMem address [] len"

definition EraseFlash :: "DebugPort \<Rightarrow> (DebugPort \<times> error option) option" where
  "EraseFlash dp = command_only dp CMDEraseFlash 0"

definition EraseSector :: "DebugPort \<Rightarrow> byte \<Rightarrow> (DebugPort \<times> error option) option" where
  "EraseSector dp sector =
     (let address1 = push_bit 16 (ucast (sector * 2) :: u32)
      in case transfer dp CMDEraseSector address1 [] 0 of
           None \<Rightarrow> None
         | Some (dp1, Inl e) \<Rightarrow> Some (dp1, Some (wrap ''failed to erase first 4KB block'' e))
         | Some (dp1, Inr bs) \<Rightarrow>
            (let address2 = push_bit 16 (ucast (sector * 2 + 1) :: u32)
             in case transfer dp1 CMDEraseSector address2 [] 0 of
                  None \<Rightarrow> None
                | Some (dp2, Inl e) \<Rightarrow>
                    Some (dp2, Some (wrap ''failed to erase second 4KB block'' e))
                | Some (dp2, Inr bs) \<Rightarrow> Some (dp2, None)))"

definition ProgramFlash :: "DebugPort \<Rightarrow> u32 \<Rightarrow> (DebugPort \<times> error option) option" where
  "ProgramFlash dp address = command_only dp CMDProgramFlash address"

definition ProgramSector :: "DebugPort \<Rightarrow> byte \<Rightarrow> (DebugPort \<times> error option) option" where
  "ProgramSector dp sector =
     (let address = push_bit 16 (ucast (sector * 2) :: u32)
      in case transfer dp CMDProgramSector address [] 0 of
           None \<Rightarrow> None
         | Some (dp1, Inl e) \<Rightarrow> Some (dp1, Some e)
         | Some (dp1, Inr bs) \<Rightarrow> Some (dp1, None))"

subsection \<open>The alignment adapter (alignment.go)\<close>

text \<open>
  \<^verbatim>\<open>copy(block[off:], data)\<close>: the slice expression panics when \<open>off\<close> exceeds the length
  of the block; \<^verbatim>\<open>copy\<close> moves as many bytes as fit.
\<close>

definition copy_at :: "byte list \<Rightarrow> nat \<Rightarrow> byte list \<Rightarrow> error + byte list" where
  "copy_at block off data =
     (if off > length block then Inl (Panic ''slice bounds out of range'')
      else Inr (take off block @ take (length block - off) data
                @ drop (off + length data) block))"

definition WriteBlock32 :: "DebugPort \<Rightarrow> u32 \<Rightarrow> byte list \<Rightarrow> (DebugPort \<times> error option) option" where
  "WriteBlock32 dp address data =
     (let size = (of_nat (length data) :: u32);
          addressAlign = address mod 4
      in if addressAlign = 0 \<and> size mod 4 = 0 then
           (case transfer dp CMDWriteMem address data 0 of
              None \<Rightarrow> None
            | Some (dp1, Inl e) \<Rightarrow> Some (dp1, Some e)
            | Some (dp1, Inr bs) \<Rightarrow> Some (dp1, None))
         else
           (let adjustedAddress = address - addressAlign;
                adjustedSize = size + addressAlign;
                sizeAlign = adjustedSize mod 4;
                adjustedSize = (if sizeAlign > 0 then adjustedSize + (4 - sizeAlign)
                                else adjustedSize)
            in case ReadBlock dp adjustedAddress (ucast adjustedSize) of
                 None \<Rightarrow> None
               | Some (dp1, Inl e) \<Rightarrow>
                   Some (dp1, Some (wrap ''failed to read block for alignment'' e))
               | Some (dp1, Inr block) \<Rightarrow>
                   if (of_nat (length block) :: u32) \<noteq> adjustedSize
                   then Some (dp1, Some (Error ''read returned fewer or more bytes than expected''))
                   else
                     (case copy_at block (unat addressAlign) data of
                        Inl e \<Rightarrow> Some (dp1, Some e)
                      | Inr block' \<Rightarrow>
                         (case transfer dp1 CMDWriteMem adjustedAddress block' 0 of
                            None \<Rightarrow> None
                          | Some (dp2, Inl e) \<Rightarrow>
                              Some (dp2, Some (wrap ''failed to write aligned block'' e))
                          | Some (dp2, Inr bs) \<Rightarrow> Some (dp2, None)))))"

definition WriteBlock :: "DebugPort \<Rightarrow> u32 \<Rightarrow> byte list \<Rightarrow> (DebugPort \<times> error option) option" where
  "WriteBlock dp address data =
     (if CPUIsM68k32 (CPU (config dp)) then WriteBlock32 dp address data
      else
        (case transfer dp CMDWriteMem address data 0 of
           None \<Rightarrow> None
         | Some (dp1, Inl e) \<Rightarrow> Some (dp1, Some e)
         | Some (dp1, Inr bs) \<Rightarrow> Some (dp1, None)))"


section \<open>The loaders (pkg/loader)\<close>

subsection \<open>The write-sink (loader.go)\<close>

text \<open>
  \<^verbatim>\<open>type WriteHandler func(address uint32, data []byte) error\<close>.
  The handler is supplied by the caller. All a loader can observe of it is the error it
  returns, and that may depend on every call made before: a handler is a function from
  the calls so far and the present call to the error returned. The list of calls is
  threaded through every function that invokes the handler.
\<close>

type_synonym writeop = "u32 \<times> byte list"
type_synonym handler = "writeop list \<Rightarrow> u32 \<Rightarrow> byte list \<Rightarrow> error option"

text \<open>Two write-sinks for the examples: one accepts every write, one rejects every write.\<close>

definition accepting_sink :: handler where
  "accepting_sink calls address data = None"

definition rejecting_sink :: handler where
  "rejecting_sink calls address data = Some (Error ''write rejected'')"

definition call_handler ::
  "handler \<Rightarrow> writeop list \<Rightarrow> u32 \<Rightarrow> byte list \<Rightarrow> writeop list \<times> error option" where
  "call_handler h calls address data = (calls @ [(address, data)], h calls address data)"

subsection \<open>Reset vectors (vectors.go)\<close>

definition setup65816Vectors ::
  "u32 \<Rightarrow> handler \<Rightarrow> writeop list \<Rightarrow> writeop list \<times> error option" where
  "setup65816Vectors startAddress h calls =
     (if startAddress AND 0xFF0000 \<noteq> 0 then
        (let stub = [0x18, 0xFB, 0x5C,
                     ucast startAddress, ucast (drop_bit 8 startAddress),
                     ucast (drop_bit 16 startAddress)];
             (calls1, err1) = call_handler h calls 0xFF80 stub
         in case err1 of
              Some e \<Rightarrow> (calls1, Some (wrap ''failed to write 65816 stub'' e))
            | None \<Rightarrow>
               (let resetVector = [0x80, 0xFF];
                    (calls2, err2) = call_handler h calls1 0xFFFC resetVector
                in case err2 of
                     Some e \<Rightarrow> (calls2, Some (wrap ''failed to write 65816 reset vector'' e))
                   | None \<Rightarrow> (calls2, None)))
      else
        (let resetVector = [ucast startAddress, ucast (drop_bit 8 startAddress)];
             (calls1, err1) = call_handler h calls 0xFFFC resetVector
         in case err1 of
              Some e \<Rightarrow> (calls1, Some (wrap ''failed to write 65816 reset vector'' e))
            | None \<Rightarrow> (calls1, None)))"

definition setup65C02Vectors ::
  "u32 \<Rightarrow> handler \<Rightarrow> writeop list \<Rightarrow> writeop list \<times> error option" where
  "setup65C02Vectors startAddress h calls =
     (let resetVector = [ucast startAddress, ucast (drop_bit 8 startAddress)];
          (calls1, err1) = call_handler h calls 0xFFFC resetVector
      in case err1 of
           Some e \<Rightarrow> (calls1, Some (wrap ''failed to write 65C02 reset vector'' e))
         | None \<Rightarrow>
            (let crossdev = [0x43, 0x52, 0x4F, 0x53, 0x53, 0x44, 0x45, 0x56];
                 (calls2, err2) = call_handler h calls1 0x0080 crossdev
             in case err2 of
                  Some e \<Rightarrow> (calls2, Some (wrap ''failed to write CROSSDEV signature'' e))
                | None \<Rightarrow>
                   (let startAddr = [ucast startAddress, ucast (drop_bit 8 startAddress)];
                        (calls3, err3) = call_handler h calls2 0x0088 startAddr
                    in case err3 of
                         Some e \<Rightarrow>
                           (calls3, Some (wrap ''failed to write microkernel start address'' e))
                       | None \<Rightarrow>
                          (let kernelArgs = [0x00, 0x00];
                               (calls4, err4) = call_handler h calls3 0x00FA kernelArgs
                           in case err4 of
                                Some e \<Rightarrow> (calls4, Some (wrap ''failed to write kernel args'' e))
                              | None \<Rightarrow> (calls4, None)))))"

definition setup680X0Vectors ::
  "u32 \<Rightarrow> handler \<Rightarrow> writeop list \<Rightarrow> writeop list \<times> error option" where
  "setup680X0Vectors startAddress h calls =
     (let resetVector = [ucast (drop_bit 24 startAddress), ucast (drop_bit 16 startAddress),
                         ucast (drop_bit 8 startAddress), ucast startAddress];
          (calls1, err1) = call_handler h calls 0x00000004 resetVector
      in case err1 of
           Some e \<Rightarrow> (calls1, Some (wrap ''failed to write 680x0 reset vector'' e))
         | None \<Rightarrow> (calls1, None))"

definition SetupResetVectors ::
  "string \<Rightarrow> u32 \<Rightarrow> handler \<Rightarrow> writeop list \<Rightarrow> writeop list \<times> error option" where
  "SetupResetVectors cpu startAddress h calls =
     (if cpu = ''65816'' then setup65816Vectors startAddress h calls
      else if cpu = ''65c02'' \<or> cpu = ''65C02'' then setup65C02Vectors startAddress h calls
      else if CPUIsMotorolatype680X0 cpu then setup680X0Vectors startAddress h calls
      else (calls, Some (Error ''unsupported CPU type'')))"

text \<open>
  The specification's vocabulary for the vector bytes: the first \<open>n\<close> bytes of a value,
  least significant first.
\<close>

definition le_bytes :: "nat \<Rightarrow> nat \<Rightarrow> byte list" where
  "le_bytes n v = map (\<lambda>i. of_nat (v div 256 ^ i mod 256)) [0..<n]"

definition stub65816 :: "u32 \<Rightarrow> byte list" where
  "stub65816 a = [0x18, 0xFB, 0x5C] @ le_bytes 3 (unat a)"

subsection \<open>Library functions the loaders use\<close>

text \<open>
  \<^verbatim>\<open>strconv.ParseUint(s, 16, bitSize)\<close>: the value and the error. An empty string or a
  character that is no hexadecimal digit is a syntax error with value 0; a value that
  does not fit in \<open>bitSize\<close> bits is a range error with the largest value of that size.
\<close>

definition is_hex_digit :: "char \<Rightarrow> bool" where
  "is_hex_digit c =
     (let n = (of_char c :: nat)
      in (48 \<le> n \<and> n \<le> 57) \<or> (97 \<le> n \<and> n \<le> 102) \<or> (65 \<le> n \<and> n \<le> 70))"

definition hex_digit_value :: "char \<Rightarrow> nat" where
  "hex_digit_value c =
     (let n = (of_char c :: nat)
      in if 48 \<le> n \<and> n \<le> 57 then n - 48
         else if 97 \<le> n \<and> n \<le> 102 then n - 87
         else if 65 \<le> n \<and> n \<le> 70 then n - 55
         else 0)"

definition hex_value :: "string \<Rightarrow> nat" where
  "hex_value s = foldl (\<lambda>v c. 16 * v + hex_digit_value c) 0 s"

definition ParseUint16 :: "string \<Rightarrow> nat \<Rightarrow> nat \<times> error option" where
  "ParseUint16 s bitSize =
     (if s = [] \<or> \<not> list_all is_hex_digit s then (0, Some (Error ''invalid syntax''))
      else if hex_value s > 2 ^ bitSize - 1
           then (2 ^ bitSize - 1, Some (Error ''value out of range''))
      else (hex_value s, None))"

subsection \<open>hexStringToBytes (loader.go)\<close>

text \<open>
  \<^verbatim>\<open>fmt.Sscanf(pair, "%02x", &b)\<close> reads the two hexadecimal digits of a pair. The loader
  passes hexadecimal digits only (the record pattern admits no other character); for any
  other pair the model reports the scan error.
\<close>

fun hexStringToBytes_loop :: "string \<Rightarrow> error + byte list" where
  "hexStringToBytes_loop (c1 # c2 # rest) =
     (if is_hex_digit c1 \<and> is_hex_digit c2 then
        (case hexStringToBytes_loop rest of
           Inl e \<Rightarrow> Inl e
         | Inr bytes \<Rightarrow> Inr (of_nat (16 * hex_digit_value c1 + hex_digit_value c2) # bytes))
      else Inl (Error ''invalid hex at position''))"
| "hexStringToBytes_loop rest = Inr []"

definition hexStringToBytes :: "string \<Rightarrow> error + byte list" where
  "hexStringToBytes hexStr =
     (if length hexStr mod 2 \<noteq> 0 then Inl (Error ''hex string length must be even'')
      else hexStringToBytes_loop hexStr)"

subsection \<open>Intel HEX (intelhex.go)\<close>

text \<open>
  The record pattern
  \<^verbatim>\<open>^:([0-9a-fA-F]{2})([0-9a-fA-F]{4})([0-9a-fA-F]{2})([0-9a-fA-F]*)([0-9a-fA-F]{2})\<close>
  is anchored at the start of the line only. It matches when the line starts with a colon
  followed by a run of at least ten hexadecimal digits. The starred group is greedy, so
  the match takes the longest run of digits after the colon: the first eight digits are
  the count, the address and the type, the last two the checksum, the digits between are
  the data. \<open>FindStringSubmatch\<close> is the five groups of that match.
\<close>

definition FindStringSubmatch :: "string \<Rightarrow> (string \<times> string \<times> string \<times> string \<times> string) option" where
  "FindStringSubmatch line =
     (case line of
        [] \<Rightarrow> None
      | c # rest \<Rightarrow>
          if c \<noteq> CHR '':'' then None
          else
            (let digits = takeWhile is_hex_digit rest;
                 n = length digits
             in if n < 10 then None
                else Some (take 2 digits, take 4 (drop 2 digits), take 2 (drop 6 digits),
                           take (n - 10) (drop 8 digits), drop (n - 2) digits)))"

text \<open>
  \<^verbatim>\<open>bufio.Scanner\<close> splits the file into lines; the loader sees the lines and, after the
  last one, the scanner's error. The loop of \<^verbatim>\<open>Process\<close> over the lines left, with the
  running base address and the write-sink calls made so far.
\<close>

fun IntelHex_lines ::
  "handler \<Rightarrow> string list \<Rightarrow> error option \<Rightarrow> u32 \<Rightarrow> writeop list
     \<Rightarrow> writeop list \<times> u32 \<times> error option" where
  "IntelHex_lines h [] scanErr baseAddress calls =
     (case scanErr of
        Some e \<Rightarrow> (calls, baseAddress, Some (wrap ''error reading file'' e))
      | None \<Rightarrow> (calls, baseAddress, None))"
| "IntelHex_lines h (line # rest) scanErr baseAddress calls =
     (if length line = 0 then IntelHex_lines h rest scanErr baseAddress calls
      else
        (case FindStringSubmatch line of
           None \<Rightarrow> (calls, baseAddress, Some (Error ''invalid Intel HEX format''))
         | Some (m1, m2, m3, dataHex, m5) \<Rightarrow>
            (let byteCount = fst (ParseUint16 m1 8);
                 address = fst (ParseUint16 m2 16);
                 recordType = fst (ParseUint16 m3 8)
             in if recordType = 0x00 then
                  (case hexStringToBytes dataHex of
                     Inl e \<Rightarrow> (calls, baseAddress, Some (wrap ''invalid data'' e))
                   | Inr data \<Rightarrow>
                       if length data \<noteq> byteCount
                       then (calls, baseAddress, Some (Error ''byte count mismatch''))
                       else
                         (let fullAddress = baseAddress + of_nat address;
                              (calls1, err) = call_handler h calls fullAddress data
                          in case err of
                               Some e \<Rightarrow> (calls1, baseAddress, Some (wrap ''handler failed'' e))
                             | None \<Rightarrow> IntelHex_lines h rest scanErr baseAddress calls1))
                else if recordType = 0x01 then (calls, baseAddress, None)
                else if recordType = 0x02 then
                  (let segmentAddr = fst (ParseUint16 dataHex 32)
                   in IntelHex_lines h rest scanErr (push_bit 4 (of_nat segmentAddr)) calls)
                else if recordType = 0x04 then
                  (let extAddr = fst (ParseUint16 dataHex 32)
                   in IntelHex_lines h rest scanErr (push_bit 16 (of_nat extAddr)) calls)
                else if recordType = 0x03 \<or> recordType = 0x05 then
                  IntelHex_lines h rest scanErr baseAddress calls
                else (calls, baseAddress, Some (Error ''unsupported record type'')))))"

text \<open>
  \<^verbatim>\<open>Process\<close>: the file is open when \<^verbatim>\<open>l.file\<close> is set, and the handler may be missing.
\<close>

definition IntelHexLoader_Process ::
  "(string list \<times> error option) option \<Rightarrow> handler option \<Rightarrow> u32 \<Rightarrow> writeop list
     \<Rightarrow> writeop list \<times> u32 \<times> error option" where
  "IntelHexLoader_Process file handler baseAddress calls =
     (case file of
        None \<Rightarrow> (calls, baseAddress, Some (Error ''file not open''))
      | Some (lines, scanErr) \<Rightarrow>
         (case handler of
            None \<Rightarrow> (calls, baseAddress, Some (Error ''handler not set''))
          | Some h \<Rightarrow> IntelHex_lines h lines scanErr baseAddress calls))"

subsection \<open>WDC binary (wdc.go)\<close>

text \<open>
  Three bytes at \<open>offset\<close>, least significant first, as the two expressions of
  \<^verbatim>\<open>readBlock\<close> read them: each \<^verbatim>\<open>l.data[i]\<close> is a checked index.
\<close>

definition read_le24 :: "byte list \<Rightarrow> int \<Rightarrow> error + u32" where
  "read_le24 data offset =
     (case index data offset of
        Inl e \<Rightarrow> Inl e
      | Inr b0 \<Rightarrow>
         (case index data (int64 (offset + 1)) of
            Inl e \<Rightarrow> Inl e
          | Inr b1 \<Rightarrow>
             (case index data (int64 (offset + 2)) of
                Inl e \<Rightarrow> Inl e
              | Inr b2 \<Rightarrow>
                  Inr (ucast b0 OR push_bit 8 (ucast b1) OR push_bit 16 (ucast b2)))))"

definition WDC_readBlock :: "byte list \<Rightarrow> int \<Rightarrow> error + (u32 \<times> byte list \<times> int)" where
  "WDC_readBlock data offset =
     (if int64 (offset + 6) > int (length data)
      then Inl (Error ''unexpected end of file'')
      else
        (case read_le24 data offset of
           Inl e \<Rightarrow> Inl e
         | Inr address \<Rightarrow>
            (case read_le24 data (int64 (offset + 3)) of
               Inl e \<Rightarrow> Inl e
             | Inr len \<Rightarrow>
                (let offset = int64 (offset + 6)
                 in if address = 0 then Inr (0, [], offset)
                    else if int64 (offset + uint len) > int (length data)
                         then Inl (Error ''data block exceeds file size'')
                    else
                      (case slice data offset (int64 (offset + uint len)) of
                         Inl e \<Rightarrow> Inl e
                       | Inr block \<Rightarrow> Inr (address, block, int64 (offset + uint len)))))))"

text \<open>
  The loop of \<^verbatim>\<open>Process\<close>. Nothing in its text bounds the number of rounds, so the
  model leaves open that it does not return.
\<close>

partial_function (option) WDC_blocks ::
  "handler \<Rightarrow> byte list \<Rightarrow> int \<Rightarrow> writeop list \<Rightarrow> (writeop list \<times> error option) option" where
  "WDC_blocks h data offset calls =
     (if offset < int (length data) then
        (case WDC_readBlock data offset of
           Inl e \<Rightarrow> Some (calls, Some e)
         | Inr (address, block, newOffset) \<Rightarrow>
             if address = 0 then Some (calls, None)
             else
               (case call_handler h calls address block of
                  (calls1, Some e) \<Rightarrow> Some (calls1, Some (wrap ''handler failed'' e))
                | (calls1, None) \<Rightarrow> WDC_blocks h data newOffset calls1))
      else Some (calls, None))"

definition WDCLoader_Process ::
  "byte list option \<Rightarrow> handler option \<Rightarrow> writeop list \<Rightarrow> (writeop list \<times> error option) option" where
  "WDCLoader_Process data handler calls =
     (case data of
        None \<Rightarrow> Some (calls, Some (Error ''file not open''))
      | Some d \<Rightarrow>
         (case handler of
            None \<Rightarrow> Some (calls, Some (Error ''handler not set''))
          | Some h \<Rightarrow> WDC_blocks h d 1 calls))"

subsection \<open>PGX (pgx.go)\<close>

definition verifyCPUCompatibility :: "string \<Rightarrow> byte \<Rightarrow> error option" where
  "verifyCPUCompatibility cpu pgxCPU =
     (if pgxCPU = PGXcpu65816 then
        (if cpu \<noteq> ''65816'' then Some (Error ''PGX is built for 65816'') else None)
      else if pgxCPU = PGXcpu65C02 then
        (if cpu \<noteq> ''65C02'' \<and> cpu \<noteq> ''65c02'' then Some (Error ''PGX is built for 65C02'')
         else None)
      else if pgxCPU = PGXcpu680X0 then
        (if \<not> CPUIsMotorolatype680X0 cpu then Some (Error ''PGX is built for 680x0'')
         else None)
      else Some (Error ''unsupported PGX CPU type''))"

text \<open>\<^verbatim>\<open>binary.LittleEndian.Uint32\<close> on a slice of four bytes.\<close>

definition LittleEndian_Uint32 :: "byte list \<Rightarrow> error + u32" where
  "LittleEndian_Uint32 b =
     (case index b 3 of
        Inl e \<Rightarrow> Inl e
      | Inr b3 \<Rightarrow>
          Inr (ucast (b ! 0) OR push_bit 8 (ucast (b ! 1)) OR push_bit 16 (ucast (b ! 2))
               OR push_bit 24 (ucast b3)))"

definition PGXLoader_Process ::
  "string \<Rightarrow> byte list option \<Rightarrow> handler option \<Rightarrow> writeop list
     \<Rightarrow> writeop list \<times> error option" where
  "PGXLoader_Process cpu data handler calls =
     (case data of
        None \<Rightarrow> (calls, Some (Error ''file not open''))
      | Some d \<Rightarrow>
         (case handler of
            None \<Rightarrow> (calls, Some (Error ''handler not set''))
          | Some h \<Rightarrow>
             if int (length d) < PGXOffData
             then (calls, Some (Error ''file too small to be valid PGX''))
             else
               (case slice d PGXOffSigStart PGXOffSigEnd of
                  Inl e \<Rightarrow> (calls, Some e)
                | Inr signature \<Rightarrow>
                   if signature \<noteq> [0x50, 0x47, 0x58]
                   then (calls, Some (Error ''bad PGX signature''))
                   else
                     (case index d PGXOffVersion of
                        Inl e \<Rightarrow> (calls, Some e)
                      | Inr versionByte \<Rightarrow>
                         (let pgxVersion = drop_bit 4 versionByte AND 0x0F
                          in if pgxVersion > 0
                             then (calls, Some (Error ''unsupported PGX version''))
                             else
                               (let pgxCPU = versionByte AND 0x0F
                                in case verifyCPUCompatibility cpu pgxCPU of
                                     Some e \<Rightarrow> (calls, Some e)
                                   | None \<Rightarrow>
                                      (case slice d PGXOffAddrStart PGXOffAddrEnd of
                                         Inl e \<Rightarrow> (calls, Some e)
                                       | Inr addrBytes \<Rightarrow>
                                          (case LittleEndian_Uint32 addrBytes of
                                             Inl e \<Rightarrow> (calls, Some e)
                                           | Inr address \<Rightarrow>
                                              (case slice d PGXOffData (int (length d)) of
                                                 Inl e \<Rightarrow> (calls, Some e)
                                               | Inr block \<Rightarrow>
                                                  (case call_handler h calls address block of
                                                     (calls1, Some e) \<Rightarrow>
                                                       (calls1, Some (wrap ''failed to write data block'' e))
                                                   | (calls1, None) \<Rightarrow>
                                                      (case SetupResetVectors cpu address h calls1 of
                                                         (calls2, Some e) \<Rightarrow>
                                                           (calls2, Some (wrap ''failed to set up reset vectors'' e))
                                                       | (calls2, None) \<Rightarrow> (calls2, None))))))))))))"

subsection \<open>PGZ (pgz.go)\<close>

text \<open>\<^verbatim>\<open>Open\<close>, after the file is read: the header byte selects the field width.\<close>

definition PGZLoader_Open :: "byte list \<Rightarrow> error + (byte list \<times> int)" where
  "PGZLoader_Open data =
     (if length data < 1 then Inl (Error ''file too small to be valid PGZ'')
      else if data ! 0 = 0x7A then Inr (data, 4)
      else if data ! 0 = 0x5A then Inr (data, 3)
      else Inl (Error ''invalid PGZ header''))"

definition readLittleEndianInt :: "byte list \<Rightarrow> int \<Rightarrow> u32" where
  "readLittleEndianInt data byteCount =
     fold (\<lambda>i v. v OR push_bit (i * 8) (ucast (data ! i)))
          [0..<min (nat byteCount) (length data)] 0"

definition PGZ_readBlock :: "int \<Rightarrow> byte list \<Rightarrow> int \<Rightarrow> error + (u32 \<times> byte list \<times> int)" where
  "PGZ_readBlock addressSize data offset =
     (let requiredBytes = int64 (addressSize * 2)
      in if int64 (offset + requiredBytes) > int (length data)
         then Inl (Error ''unexpected end of file'')
         else
           (case slice data offset (int (length data)) of
              Inl e \<Rightarrow> Inl e
            | Inr rest1 \<Rightarrow>
               (let address = readLittleEndianInt rest1 addressSize;
                    offset = int64 (offset + addressSize)
                in case slice data offset (int (length data)) of
                     Inl e \<Rightarrow> Inl e
                   | Inr rest2 \<Rightarrow>
                      (let size = readLittleEndianInt rest2 addressSize;
                           offset = int64 (offset + addressSize)
                       in if address = 0 then Inr (0, [], offset)
                          else if size = 0 then Inr (address, [], offset)
                          else if int64 (offset + uint size) > int (length data)
                               then Inl (Error ''data block exceeds file size'')
                          else
                            (case slice data offset (int64 (offset + uint size)) of
                               Inl e \<Rightarrow> Inl e
                             | Inr block \<Rightarrow>
                                 Inr (address, block, int64 (offset + uint size)))))))"

text \<open>
  The inner loop of \<^verbatim>\<open>Process\<close> that sends a large block in pieces of 1 KB. Its counters
  stay between 0 and the length of the block.
\<close>

definition chunkSize :: int where
  "chunkSize = 1024"

function PGZ_chunks ::
  "handler \<Rightarrow> u32 \<Rightarrow> byte list \<Rightarrow> int \<Rightarrow> int \<Rightarrow> writeop list \<Rightarrow> writeop list \<times> error option" where
  "PGZ_chunks h address block totalLength chunkOffset calls =
     (if totalLength > 0 then
        (let currentChunkSize = (if totalLength < chunkSize then totalLength else chunkSize)
         in case slice block chunkOffset (chunkOffset + currentChunkSize) of
              Inl e \<Rightarrow> (calls, Some e)
            | Inr chunk \<Rightarrow>
               (case call_handler h calls (address + of_int chunkOffset) chunk of
                  (calls1, Some e) \<Rightarrow> (calls1, Some (wrap ''failed to write chunk'' e))
                | (calls1, None) \<Rightarrow>
                    PGZ_chunks h address block (totalLength - currentChunkSize)
                      (chunkOffset + currentChunkSize) calls1))
      else (calls, None))"
  by pat_completeness auto
termination
  by (relation "measure (\<lambda>(h, address, block, totalLength, chunkOffset, calls). nat totalLength)")
     (auto simp: chunkSize_def)

text \<open>The part of the loop body that delivers a regular data block.\<close>

definition PGZ_deliver ::
  "handler \<Rightarrow> u32 \<Rightarrow> byte list \<Rightarrow> writeop list \<Rightarrow> writeop list \<times> error option" where
  "PGZ_deliver h address block calls =
     (if int (length block) > chunkSize
      then PGZ_chunks h address block (int (length block)) 0 calls
      else
        (case call_handler h calls address block of
           (calls1, Some e) \<Rightarrow> (calls1, Some (wrap ''failed to write block'' e))
         | (calls1, None) \<Rightarrow> (calls1, None)))"

partial_function (option) PGZ_blocks ::
  "string \<Rightarrow> int \<Rightarrow> handler \<Rightarrow> byte list \<Rightarrow> int \<Rightarrow> writeop list
     \<Rightarrow> (writeop list \<times> error option) option" where
  "PGZ_blocks cpu addressSize h data offset calls =
     (if offset < int (length data) then
        (case PGZ_readBlock addressSize data offset of
           Inl e \<Rightarrow> Some (calls, Some e)
         | Inr (address, block, newOffset) \<Rightarrow>
             if address = 0 then Some (calls, None)
             else if length block = 0 \<and> address > 0 then
               (case SetupResetVectors cpu address h calls of
                  (calls1, Some e) \<Rightarrow> Some (calls1, Some (wrap ''failed to set up reset vectors'' e))
                | (calls1, None) \<Rightarrow> PGZ_blocks cpu addressSize h data newOffset calls1)
             else if address > 0 then
               (case PGZ_deliver h address block calls of
                  (calls1, Some e) \<Rightarrow> Some (calls1, Some e)
                | (calls1, None) \<Rightarrow> PGZ_blocks cpu addressSize h data newOffset calls1)
             else PGZ_blocks cpu addressSize h data newOffset calls)
      else Some (calls, None))"

definition PGZLoader_Process ::
  "string \<Rightarrow> int \<Rightarrow> byte list option \<Rightarrow> handler option \<Rightarrow> writeop list
     \<Rightarrow> (writeop list \<times> error option) option" where
  "PGZLoader_Process cpu addressSize data handler calls =
     (case data of
        None \<Rightarrow> Some (calls, Some (Error ''file not open''))
      | Some d \<Rightarrow>
         (case handler of
            None \<Rightarrow> Some (calls, Some (Error ''handler not set''))
          | Some h \<Rightarrow> PGZ_blocks cpu addressSize h d 1 calls))"

section \<open>Flash programming commands (cmd/flash.go)\<close>

text \<open>
  What the commands take from outside the program is a parameter of the model: the
  configuration and the flags, the result of parsing the \<^verbatim>\<open>--address\<close> flag
  (\<^verbatim>\<open>util.ParseHexAddress\<close>), the result of reading the file (\<^verbatim>\<open>util.ReadFile\<close>), the
  user's answer to the confirmation prompt (\<^verbatim>\<open>util.Confirm\<close>), the presence of the stop
  indicator file (\<^verbatim>\<open>util.IsStopped\<close>) and the connection. What they do is the list of
  messages printed, the calls on the connection and the error returned.
\<close>

record FlashEnv =
  cfg :: Config
  portFlag :: string
  quietFlag :: bool
  flashSector :: string
  parsedAddress :: "error + u32"
  fileContent :: "error + byte list"
  confirmed :: bool
  isStopped :: bool
  connection0 :: connection

definition validateConnectionFlags :: "FlashEnv \<Rightarrow> error option" where
  "validateConnectionFlags env =
     (if Port (cfg env) = [] \<and> portFlag env = [] then Some (Error ''no port specified'')
      else None)"

definition printInfo :: "FlashEnv \<Rightarrow> string list \<Rightarrow> string \<Rightarrow> string list" where
  "printInfo env out msg = (if \<not> quietFlag env then out @ [msg] else out)"

text \<open>Go's integer division truncates towards zero.\<close>

definition go_div :: "int \<Rightarrow> int \<Rightarrow> int" where
  "go_div a b = sgn a * sgn b * (\<bar>a\<bar> div \<bar>b\<bar>)"

text \<open>
  The deferred calls, run when the command returns: \<^verbatim>\<open>dp.ExitDebug()\<close> when it was
  deferred, then \<^verbatim>\<open>conn.Close()\<close>.
\<close>

definition run_deferred :: "bool \<Rightarrow> DebugPort \<Rightarrow> connection option" where
  "run_deferred exitDebug dp =
     (if exitDebug then
        (case ExitDebug dp of
           None \<Rightarrow> None
         | Some (dp1, r) \<Rightarrow> Some (conn_Close (conn dp1)))
      else Some (conn_Close (conn dp)))"

partial_function (option) uploadChunked_loop ::
  "Config \<Rightarrow> DebugPort \<Rightarrow> u32 \<Rightarrow> int \<Rightarrow> byte list \<Rightarrow> (DebugPort \<times> error option) option" where
  "uploadChunked_loop c dp address offset data =
     (if offset < int (length data) then
        (let chunkSize = (if int64 (offset + ChunkSize c) > int (length data)
                          then int64 (int (length data) - offset) else ChunkSize c)
         in case slice data offset (int64 (offset + chunkSize)) of
              Inl e \<Rightarrow> Some (dp, Some e)
            | Inr chunk \<Rightarrow>
               (case WriteBlock dp address chunk of
                  None \<Rightarrow> None
                | Some (dp1, Some e) \<Rightarrow> Some (dp1, Some (wrap ''failed to write chunk'' e))
                | Some (dp1, None) \<Rightarrow>
                    uploadChunked_loop c dp1 (address + of_int chunkSize)
                      (int64 (offset + chunkSize)) data))
      else Some (dp, None))"

definition uploadChunked ::
  "Config \<Rightarrow> DebugPort \<Rightarrow> u32 \<Rightarrow> byte list \<Rightarrow> (DebugPort \<times> error option) option" where
  "uploadChunked c dp startAddress data = uploadChunked_loop c dp startAddress 0 data"

text \<open>
  \<^verbatim>\<open>flashProgramFull\<close> from the point where the connection is open and the debug port is
  created: enter debug mode, upload, erase, program.
\<close>

definition flashProgramFull_hardware ::
  "FlashEnv \<Rightarrow> string list \<Rightarrow> DebugPort \<Rightarrow> u32 \<Rightarrow> byte list
     \<Rightarrow> (string list \<times> connection \<times> error option) option" where
  "flashProgramFull_hardware env out dp addr data =
     (case (if \<not> isStopped env then EnterDebug dp else Some (dp, None)) of
        None \<Rightarrow> None
      | Some (dp1, Some e) \<Rightarrow>
          Some (out, conn_Close (conn dp1), Some (wrap ''failed to enter debug mode'' e))
      | Some (dp1, None) \<Rightarrow>
         (let exitDebug = (\<not> isStopped env);
              out = printInfo env out ''Uploading flash image to RAM...''
          in case uploadChunked (cfg env) dp1 addr data of
               None \<Rightarrow> None
             | Some (dp2, Some e) \<Rightarrow>
                 map_option (\<lambda>c. (out, c, Some (wrap ''upload failed'' e)))
                   (run_deferred exitDebug dp2)
             | Some (dp2, None) \<Rightarrow>
                (let out = printInfo env out ''Erasing flash memory...''
                 in case EraseFlash dp2 of
                      None \<Rightarrow> None
                    | Some (dp3, Some e) \<Rightarrow>
                        map_option (\<lambda>c. (out, c, Some (wrap ''flash erase failed'' e)))
                          (run_deferred exitDebug dp3)
                    | Some (dp3, None) \<Rightarrow>
                       (let out = printInfo env out ''Programming flash from RAM...''
                        in case ProgramFlash dp3 addr of
                             None \<Rightarrow> None
                           | Some (dp4, Some e) \<Rightarrow>
                               map_option
                                 (\<lambda>c. (out, c, Some (wrap ''flash programming failed'' e)))
                                 (run_deferred exitDebug dp4)
                           | Some (dp4, None) \<Rightarrow>
                               map_option
                                 (\<lambda>c. (printInfo env out ''Flash programming complete.'', c, None))
                                 (run_deferred exitDebug dp4)))))"

definition flashProgramFull ::
  "FlashEnv \<Rightarrow> (string list \<times> connection \<times> error option) option" where
  "flashProgramFull env =
     (let c0 = connection0 env
      in case validateConnectionFlags env of
           Some e \<Rightarrow> Some ([], c0, Some e)
         | None \<Rightarrow>
            (case parsedAddress env of
               Inl e \<Rightarrow> Some ([], c0, Some (wrap ''invalid address'' e))
             | Inr addr \<Rightarrow>
                (case fileContent env of
                   Inl e \<Rightarrow> Some ([], c0, Some (wrap ''failed to read file'' e))
                 | Inr data \<Rightarrow>
                    (let out = (if int (length data) \<noteq> FlashSize (cfg env)
                                then printInfo env []
                                  ''Warning: File size does not match configured flash size''
                                else []);
                         out = printInfo env out ''About to upload bytes and program flash''
                     in if \<not> confirmed env
                        then Some (printInfo env out ''Operation cancelled.'', c0, None)
                        else
                          (case conn_Open c0 of
                             (c1, Some e) \<Rightarrow> Some (out, c1, Some (wrap ''failed to open connection'' e))
                           | (c1, None) \<Rightarrow>
                               flashProgramFull_hardware env out (NewDebugPort c1 (cfg env))
                                 addr data)))))"

text \<open>
  \<^verbatim>\<open>flashProgramSector\<close>: erasing and programming one page, the loop over the file, and
  the command.
\<close>

definition program_page ::
  "FlashEnv \<Rightarrow> string list \<Rightarrow> DebugPort \<Rightarrow> byte
     \<Rightarrow> (string list \<times> DebugPort \<times> error option) option" where
  "program_page env out dp currentPage =
     (let out = printInfo env out ''Erasing flash page''
      in case EraseSector dp currentPage of
           None \<Rightarrow> None
         | Some (dp1, Some e) \<Rightarrow> Some (out, dp1, Some (wrap ''failed to erase sector'' e))
         | Some (dp1, None) \<Rightarrow>
            (let out = printInfo env out ''Programming flash page''
             in case ProgramSector dp1 currentPage of
                  None \<Rightarrow> None
                | Some (dp2, Some e) \<Rightarrow>
                    Some (out, dp2, Some (wrap ''failed to program sector'' e))
                | Some (dp2, None) \<Rightarrow> Some (out, dp2, None)))"

partial_function (option) flashProgramSector_loop ::
  "FlashEnv \<Rightarrow> byte list \<Rightarrow> string list \<Rightarrow> DebugPort \<Rightarrow> int \<Rightarrow> u32 \<Rightarrow> byte
     \<Rightarrow> (string list \<times> DebugPort \<times> u32 \<times> byte \<times> error option) option" where
  "flashProgramSector_loop env data out dp written ramAddress currentPage =
     (if written < int (length data) then
        (let toWrite = (if ChunkSize (cfg env) > int64 (int (length data) - written)
                        then int64 (int (length data) - written) else ChunkSize (cfg env))
         in case slice data written (int64 (written + toWrite)) of
              Inl e \<Rightarrow> Some (out, dp, ramAddress, currentPage, Some e)
            | Inr chunk \<Rightarrow>
               (case WriteBlock dp ramAddress chunk of
                  None \<Rightarrow> None
                | Some (dp1, Some e) \<Rightarrow>
                    Some (out, dp1, ramAddress, currentPage, Some (wrap ''failed to write to RAM'' e))
                | Some (dp1, None) \<Rightarrow>
                   (let written = int64 (written + toWrite);
                        ramAddress = ramAddress + of_int toWrite
                    in if ramAddress \<ge> of_int (int64 (ramSize (cfg env) * 1024)) then
                         (case program_page env out dp1 currentPage of
                            None \<Rightarrow> None
                          | Some (out1, dp2, Some e) \<Rightarrow>
                              Some (out1, dp2, ramAddress, currentPage, Some e)
                          | Some (out1, dp2, None) \<Rightarrow>
                              flashProgramSector_loop env data out1 dp2 written 0 (currentPage + 1))
                       else flashProgramSector_loop env data out dp1 written ramAddress currentPage)))
      else Some (out, dp, ramAddress, currentPage, None))"

definition flashProgramSector_hardware ::
  "FlashEnv \<Rightarrow> string list \<Rightarrow> DebugPort \<Rightarrow> nat \<Rightarrow> byte list
     \<Rightarrow> (string list \<times> connection \<times> error option) option" where
  "flashProgramSector_hardware env out dp sectorNum data =
     (case (if \<not> isStopped env then EnterDebug dp else Some (dp, None)) of
        None \<Rightarrow> None
      | Some (dp1, Some e) \<Rightarrow>
          Some (out, conn_Close (conn dp1), Some (wrap ''failed to enter debug mode'' e))
      | Some (dp1, None) \<Rightarrow>
         (let exitDebug = (\<not> isStopped env);
              pageSize = flashPageSize (cfg env);
              sectorSize = flashSectorSize (cfg env);
              pagesPerSector = go_div sectorSize pageSize;
              startPage = (of_nat sectorNum :: byte) * of_int pagesPerSector
          in case flashProgramSector_loop env data out dp1 0 0 startPage of
               None \<Rightarrow> None
             | Some (out1, dp2, ramAddress, currentPage, Some e) \<Rightarrow>
                 map_option (\<lambda>c. (out1, c, Some e)) (run_deferred exitDebug dp2)
             | Some (out1, dp2, ramAddress, currentPage, None) \<Rightarrow>
                (case (if ramAddress > 0 then program_page env out1 dp2 currentPage
                       else Some (out1, dp2, None)) of
                   None \<Rightarrow> None
                 | Some (out2, dp3, Some e) \<Rightarrow>
                     map_option (\<lambda>c. (out2, c, Some e)) (run_deferred exitDebug dp3)
                 | Some (out2, dp3, None) \<Rightarrow>
                     map_option
                       (\<lambda>c. (printInfo env out2 ''Flash sector programming complete.'', c, None))
                       (run_deferred exitDebug dp3))))"

definition flashProgramSector ::
  "FlashEnv \<Rightarrow> (string list \<times> connection \<times> error option) option" where
  "flashProgramSector env =
     (let c0 = connection0 env
      in case validateConnectionFlags env of
           Some e \<Rightarrow> Some ([], c0, Some e)
         | None \<Rightarrow>
            if flashPageSize (cfg env) = 0 \<or> flashSectorSize (cfg env) = 0
            then Some ([], c0, Some (Error ''target machine does not support flash sector programming''))
            else
              (case ParseUint16 (flashSector env) 8 of
                 (sectorNum, Some e) \<Rightarrow> Some ([], c0, Some (wrap ''invalid sector number'' e))
               | (sectorNum, None) \<Rightarrow>
                  (case fileContent env of
                     Inl e \<Rightarrow> Some ([], c0, Some (wrap ''failed to read file'' e))
                   | Inr data \<Rightarrow>
                      (let expectedSize = int64 (flashSectorSize (cfg env) * 1024)
                       in if int (length data) \<noteq> expectedSize
                          then Some ([], c0, Some (Error ''file size does not match sector size''))
                          else
                            (let out = printInfo env [] ''About to upload image to sector''
                             in if \<not> confirmed env
                                then Some (printInfo env out ''Operation cancelled.'', c0, None)
                                else
                                  (case conn_Open c0 of
                                     (c1, Some e) \<Rightarrow>
                                       Some (out, c1, Some (wrap ''failed to open connection'' e))
                                   | (c1, None) \<Rightarrow>
                                       flashProgramSector_hardware env out
                                         (NewDebugPort c1 (cfg env)) sectorNum data))))))"

section \<open>Vocabulary of the properties\<close>

text \<open>The packets handed to \<^verbatim>\<open>Write\<close>, in order: the requests issued on the wire.\<close>

fun written_packets :: "event list \<Rightarrow> byte list list" where
  "written_packets [] = []"
| "written_packets (Wrote p # evs) = p # written_packets evs"
| "written_packets (ev # evs) = written_packets evs"

definition sent :: "connection \<Rightarrow> byte list list" where
  "sent c = written_packets (history c)"

text \<open>
  A request frame as the wire format describes it: sync byte \<open>0x55\<close>, command, address in
  three bytes and length in two, most significant byte first, then the data and the
  checksum. \<open>xor_bytes\<close> is the exclusive or of a list of bytes.
\<close>

definition be_bytes :: "nat \<Rightarrow> nat \<Rightarrow> byte list" where
  "be_bytes n v = rev (le_bytes n v)"

definition xor_bytes :: "byte list \<Rightarrow> byte" where
  "xor_bytes bs = foldr (XOR) bs 0"

definition frame_header :: "byte \<Rightarrow> nat \<Rightarrow> nat \<Rightarrow> byte list" where
  "frame_header command address len = [0x55, command] @ be_bytes 3 address @ be_bytes 2 len"

definition frame_length :: "byte list \<Rightarrow> u16 \<Rightarrow> nat" where
  "frame_length data readLength = (if data \<noteq> [] then length data else unat readLength)"

text \<open>
  Values for the examples: the configuration \<^verbatim>\<open>Load\<close> builds from its defaults for the
  target \<open>f256k\<close>, and a connection that accepts every packet whole and answers a read
  of one byte with \<open>AA\<close>, a read of two bytes with \<open>00 01\<close> and any other read with as
  many zero bytes as asked for.
\<close>

definition f256k_config :: Config where
  "f256k_config =
     \<lparr>Port = ''COM3'', CPU = ''65c02'', ChunkSize = 4096, FlashSize = 524288,
      flashPageSize = 8, flashSectorSize = 8, ramSize = 8\<rparr>"

definition responsive_bytes :: "int \<Rightarrow> nat \<Rightarrow> byte" where
  "responsive_bytes n i = (if n = 1 then 0xAA else if n = 2 then of_nat i else 0x00)"

definition responsive :: connection where
  "responsive =
     \<lparr>history = [], open_result = None,
      write_result = (\<lambda>h p. (int (length p), None)),
      read_result = (\<lambda>h n. (responsive_bytes n, None))\<rparr>"

text \<open>A connection on which every write fails, and one on which every read fails.\<close>

definition write_failing :: connection where
  "write_failing =
     \<lparr>history = [], open_result = None,
      write_result = (\<lambda>h p. (0, Some (Error ''write error''))),
      read_result = (\<lambda>h n. (responsive_bytes n, None))\<rparr>"

definition read_failing :: connection where
  "read_failing =
     \<lparr>history = [], open_result = None,
      write_result = (\<lambda>h p. (int (length p), None)),
      read_result = (\<lambda>h n. (responsive_bytes n, Some (Error ''read timeout'')))\<rparr>"


text \<open>
  The fields of a request frame read back from its bytes, and the addresses and lengths
  of the requests on the wire after an operation that returned.
\<close>

definition frame_address :: "byte list \<Rightarrow> u32" where
  "frame_address p = push_bit 16 (ucast (p ! 2)) OR push_bit 8 (ucast (p ! 3)) OR ucast (p ! 4)"

definition frame_length_field :: "byte list \<Rightarrow> u16" where
  "frame_length_field p = push_bit 8 (ucast (p ! 5)) OR ucast (p ! 6)"

definition issued_addresses :: "(DebugPort \<times> 'a) option \<Rightarrow> u32 list option" where
  "issued_addresses res = map_option (\<lambda>(dp, r). map frame_address (sent (conn dp))) res"

definition issued_lengths :: "(DebugPort \<times> 'a) option \<Rightarrow> u16 list option" where
  "issued_lengths res = map_option (\<lambda>(dp, r). map frame_length_field (sent (conn dp))) res"

text \<open>A request without data: header and checksum.\<close>

definition command_frame :: "byte \<Rightarrow> nat \<Rightarrow> nat \<Rightarrow> byte list" where
  "command_frame command address len =
     frame_header command address len @ [xor_bytes (take 6 (frame_header command address len))]"

text \<open>
  The alignment adapter in the specification's words: the next multiple of 4, and a
  buffer with data laid over it from an offset on.
\<close>

definition round_up4 :: "nat \<Rightarrow> nat" where
  "round_up4 n = (n + 3) div 4 * 4"

definition overlay :: "byte list \<Rightarrow> nat \<Rightarrow> byte list \<Rightarrow> byte list" where
  "overlay block off data =
     map (\<lambda>i. if off \<le> i \<and> i < off + length data then data ! (i - off) else block ! i)
       [0..<length block]"

definition aligned_offset :: "u32 \<Rightarrow> nat" where
  "aligned_offset address = unat address mod 4"

definition aligned_address :: "u32 \<Rightarrow> u32" where
  "aligned_address address = address - of_nat (unat address mod 4)"

definition aligned_length :: "u32 \<Rightarrow> byte list \<Rightarrow> nat" where
  "aligned_length address data = round_up4 (length data + unat address mod 4)"

section \<open>Bytes of a 32-bit value\<close>

lemma unat_ucast_drop_bit_byte:
  "unat (ucast (drop_bit k (a::u32)) :: byte) = unat a div 2 ^ k mod 256"
  unfolding unsigned_ucast_eq unat_drop_bit_eq
  by (simp add: take_bit_eq_mod drop_bit_eq_div)

lemma byte_of_nat_drop_bit:
  "(of_nat (unat (a::u32) div 2 ^ k mod 256) :: byte) = ucast (drop_bit k a)"
  by (simp add: word_unat_eq_iff unat_of_nat unat_ucast_drop_bit_byte)

lemma le_bytes_3:
  "le_bytes 3 (unat a) = [ucast a, ucast (drop_bit 8 a), ucast (drop_bit 16 (a::u32))]"
proof -
  have "le_bytes 3 (unat a) =
     [of_nat (unat a div 2 ^ 0 mod 256), of_nat (unat a div 2 ^ 8 mod 256),
      of_nat (unat a div 2 ^ 16 mod 256)]"
    by (simp add: le_bytes_def upt_rec)
  also have "\<dots> = [ucast (drop_bit 0 a), ucast (drop_bit 8 a), ucast (drop_bit 16 a)]"
    by (simp only: byte_of_nat_drop_bit)
  finally show ?thesis by simp
qed

lemma le_bytes_2: "le_bytes 2 (unat a) = [ucast a, ucast (drop_bit 8 (a::u32))]"
proof -
  have "le_bytes 2 (unat a) =
     [of_nat (unat a div 2 ^ 0 mod 256), of_nat (unat a div 2 ^ 8 mod 256)]"
    by (simp add: le_bytes_def upt_rec)
  also have "\<dots> = [ucast (drop_bit 0 a), ucast (drop_bit 8 a)]"
    by (simp only: byte_of_nat_drop_bit)
  finally show ?thesis by simp
qed

section \<open>Reset vectors of the 65816\<close>

text \<open>
  Claim C4, as amended. For every entry address outside bank 0 the 65816 configurator
  calls the write-sink with the 6-byte stub \<open>18 FB 5C\<close> followed by the 24-bit
  little-endian entry address at \<open>0xFF80\<close> and, when the sink has accepted the stub, with
  \<open>80 FF\<close> at \<open>0xFFFC\<close>: two calls when the sink accepts the stub, the stub alone when it
  rejects it. For every entry address in bank 0 it makes one call, the 16-bit
  little-endian entry address at \<open>0xFFFC\<close>.
\<close>

theorem setup65816Vectors_writeops:
  "fst (setup65816Vectors a h calls) =
     calls @ (if a AND 0xFF0000 \<noteq> 0 then
                (if h calls 0xFF80 (stub65816 a) = None
                 then [(0xFF80, stub65816 a), (0xFFFC, [0x80, 0xFF])]
                 else [(0xFF80, stub65816 a)])
              else [(0xFFFC, le_bytes 2 (unat a))])"
  by (simp add: setup65816Vectors_def call_handler_def stub65816_def le_bytes_3 le_bytes_2
      Let_def split: option.splits)

text \<open>
  Claim C4 as first stated, with two writes for every address outside bank 0, fails when
  the write-sink rejects the stub: for the entry address \<open>0x018000\<close> in bank 1 the
  configurator returns after the one call, with the error.
\<close>

theorem setup65816Vectors_rejected_stub:
  "(0x018000 :: u32) AND 0xFF0000 \<noteq> 0 \<and>
   setup65816Vectors 0x018000 rejecting_sink [] =
     ([(0xFF80, [0x18, 0xFB, 0x5C, 0x00, 0x80, 0x01])],
      Some (Wrapped ''failed to write 65816 stub'' (Error ''write rejected'')))"
  by (simp add: setup65816Vectors_def call_handler_def rejecting_sink_def)

section \<open>The connection\<close>

lemma written_packets_append:
  "written_packets (xs @ ys) = written_packets xs @ written_packets ys"
  by (induction xs rule: written_packets.induct) auto

lemma written_packets_replicate_ReadReq [simp]:
  "written_packets (replicate k (ReadReq n)) = []"
  by (induction k) auto

lemma sent_history_update [simp]: "sent (c\<lparr>history := h\<rparr>) = written_packets h"
  by (simp add: sent_def)

lemma conn_Read_1:
  "conn_Read c 1 =
     (c\<lparr>history := history c @ [ReadReq 1]\<rparr>,
      (if snd (read_result c (history c) 1) = None then [fst (read_result c (history c) 1) 0]
       else []),
      snd (read_result c (history c) 1))"
  by (simp add: conn_Read_def split: prod.splits)


lemma conn_Read_history:
  "conn_Read c n = (c', buf, err) \<Longrightarrow> c' = c\<lparr>history := history c @ [ReadReq n]\<rparr>"
  by (auto simp: conn_Read_def split: prod.splits)

section \<open>Waiting for the sync byte\<close>

lemma read_sync_history_aux:
  "read_sync c = Some y \<Longrightarrow>
     \<exists>k. fst y = c\<lparr>history := history c @ replicate (Suc k) (ReadReq 1)\<rparr>"
proof (induction rule: read_sync.raw_induct[rotated 1, consumes 1, case_names step])
  case (step f c y)
  let ?c1 = "c\<lparr>history := history c @ [ReadReq 1]\<rparr>"
  show ?case
  proof (cases "f ?c1 = Some y")
    case True
    from step(1)[OF this] obtain k where
      "fst y = ?c1\<lparr>history := history ?c1 @ replicate (Suc k) (ReadReq 1)\<rparr>"
      by blast
    then have "fst y = c\<lparr>history := history c @ replicate (Suc (Suc k)) (ReadReq 1)\<rparr>"
      by simp
    then show ?thesis
      by blast
  next
    case False
    with step(2) have "fst y = ?c1"
      by (auto simp: conn_Read_1 split: option.splits list.splits if_splits)
    then show ?thesis
      by (auto intro!: exI[of _ 0])
  qed
qed

lemma read_sync_history:
  "read_sync c = Some (c', r) \<Longrightarrow>
     \<exists>k. c' = c\<lparr>history := history c @ replicate (Suc k) (ReadReq 1)\<rparr>"
  using read_sync_history_aux[of c "(c', r)"] by simp

lemma read_sync_error:
  "read_sync c = Some y \<Longrightarrow> snd y = Some e \<Longrightarrow>
     \<exists>e'. e = Wrapped ''failed to read sync byte'' e'"
proof (induction rule: read_sync.raw_induct[rotated 1, consumes 1, case_names step])
  case (step f c y)
  then show ?case
    by (auto simp: conn_Read_1 split: option.splits list.splits if_splits)
qed

section \<open>transfer\<close>

lemma transfer_sent:
  assumes "transfer dp c a d n = Some (dp', r)"
  shows "sent (conn dp') = sent (conn dp) @ [request_packet c a d n]"
  using assms
  unfolding transfer_def conn_Write_def Let_def
  by (auto split: option.splits prod.splits list.splits if_splits
      dest!: read_sync_history conn_Read_history simp: written_packets_append sent_def)

section \<open>The request frame\<close>

lemma unat_ucast_drop_bit_u16:
  "unat (ucast (drop_bit k (w::u16)) :: byte) = unat w div 2 ^ k mod 256"
  unfolding unsigned_ucast_eq unat_drop_bit_eq
  by (simp add: take_bit_eq_mod drop_bit_eq_div)

lemma byte_of_nat_drop_bit_u16:
  "(of_nat (unat (w::u16) div 2 ^ k mod 256) :: byte) = ucast (drop_bit k w)"
  by (simp add: word_unat_eq_iff unat_of_nat unat_ucast_drop_bit_u16)

lemma be_bytes_3:
  "be_bytes 3 (unat a) = [ucast (drop_bit 16 a), ucast (drop_bit 8 a), ucast (a::u32)]"
  by (simp add: be_bytes_def le_bytes_3)

lemma be_bytes_2_u16:
  "be_bytes 2 (unat w) = [ucast (drop_bit 8 w), ucast (w::u16)]"
proof -
  have "le_bytes 2 (unat w) =
     [of_nat (unat w div 2 ^ 0 mod 256), of_nat (unat w div 2 ^ 8 mod 256)]"
    by (simp add: le_bytes_def upt_rec)
  also have "\<dots> = [ucast (drop_bit 0 w), ucast (drop_bit 8 w)]"
    by (simp only: byte_of_nat_drop_bit_u16)
  finally show ?thesis by (simp add: be_bytes_def)
qed

lemma le_bytes_2_mod: "le_bytes 2 (m mod 65536) = le_bytes 2 m"
proof -
  have "take_bit 8 (drop_bit 8 (take_bit 16 m)) = take_bit 8 (drop_bit 8 m)"
    by (simp add: drop_bit_take_bit)
  then have a: "m mod 65536 div 256 mod 256 = m div 256 mod 256"
    by (simp add: take_bit_eq_mod drop_bit_eq_div)
  have b: "m mod 65536 mod 256 = m mod 256"
    by (simp add: mod_mod_cancel)
  show ?thesis
    by (simp add: le_bytes_def upt_rec a b)
qed

lemma be_bytes_2_of_nat:
  "be_bytes 2 m = [ucast (drop_bit 8 (of_nat m :: u16)), ucast (of_nat m :: u16)]"
proof -
  have "be_bytes 2 m = be_bytes 2 (unat (of_nat m :: u16))"
    by (simp add: be_bytes_def unat_of_nat le_bytes_2_mod)
  then show ?thesis
    by (simp only: be_bytes_2_u16)
qed

lemma fold_xor: "fold (\<lambda>b l. l XOR b) xs (acc::byte) = acc XOR xor_bytes xs"
  by (induction xs arbitrary: acc) (simp_all add: xor_bytes_def ac_simps)

lemma xor_bytes_snoc: "xor_bytes (xs @ [x]) = xor_bytes xs XOR x"
  by (induction xs) (simp_all add: xor_bytes_def ac_simps)

lemma fold_xor_index:
  "k \<le> length header \<Longrightarrow>
     fold (\<lambda>i l. l XOR header ! i) [0..<k] (acc::byte) = acc XOR xor_bytes (take k header)"
proof (induction k)
  case 0
  then show ?case by (simp add: xor_bytes_def)
next
  case (Suc k)
  then show ?case
    by (simp add: take_Suc_conv_app_nth xor_bytes_snoc ac_simps)
qed

lemma request_header_frame:
  "request_header c a (request_length d n) = frame_header c (unat a) (frame_length d n)"
  by (simp add: request_header_def request_length_def frame_header_def frame_length_def
      be_bytes_3 be_bytes_2_of_nat be_bytes_2_u16 RequestSyncByte_def)

lemma length_frame_header: "length (frame_header c a len) = 7"
  by (simp add: frame_header_def be_bytes_def le_bytes_def)

lemma request_lrc_xor:
  "length header = 7 \<Longrightarrow> request_lrc header d = xor_bytes (take 6 header) XOR xor_bytes d"
  using fold_xor_index[of 6 header 0]
  by (simp add: request_lrc_def Let_def fold_xor xor_bytes_def)

lemma request_packet_frame:
  "request_packet c a d n =
     frame_header c (unat a) (frame_length d n) @ d @
       [xor_bytes (take 6 (frame_header c (unat a) (frame_length d n))) XOR xor_bytes d]"
  by (simp add: request_packet_def Let_def request_header_frame
      request_lrc_xor length_frame_header)

section \<open>The checksum of a request\<close>

text \<open>
  Claim C1. The packet \<^verbatim>\<open>transfer\<close> builds for a command, an address, data and a read
  length is the 7-byte header (sync byte, command, the address in three bytes, the length
  in two), the data, and one checksum byte: the exclusive or of the header's bytes at
  offsets 0 to 5 and of every data byte. That packet, and no other, is what a transfer
  that returns has handed to the connection's \<^verbatim>\<open>Write\<close>.
\<close>

theorem transfer_checksum:
  "request_packet c a d n =
     frame_header c (unat a) (frame_length d n) @ d @
       [xor_bytes (take 6 (frame_header c (unat a) (frame_length d n))) XOR xor_bytes d]
   \<and> (transfer dp c a d n = Some (dp', r) \<longrightarrow>
        sent (conn dp') = sent (conn dp) @ [request_packet c a d n])"
  using transfer_sent[of dp c a d n dp' r] request_packet_frame[of c a d n] by blast

lemma transfer_returns_example:
  "\<not> Option.is_none
        (transfer (NewDebugPort responsive f256k_config) CMDWriteMem 0x123456 [1, 2, 3] 0)"
  by code_simp

theorem transfer_checksum_witness:
  "\<exists>dp' r. transfer (NewDebugPort responsive f256k_config) CMDWriteMem 0x123456 [1, 2, 3] 0
              = Some (dp', r)
     \<and> sent (conn dp') = [[0x55, 0x01, 0x12, 0x34, 0x56, 0x00, 0x03, 1, 2, 3, 0x24]]"
proof -
  obtain dp' r where
    t: "transfer (NewDebugPort responsive f256k_config) CMDWriteMem 0x123456 [1, 2, 3] 0
          = Some (dp', r)"
    using transfer_returns_example by (auto simp: Option.is_none_def)
  have "sent (conn dp') = [[0x55, 0x01, 0x12, 0x34, 0x56, 0x00, 0x03, 1, 2, 3, 0x24]]"
    using transfer_checksum[of CMDWriteMem "0x123456" "[1, 2, 3]" 0
        "NewDebugPort responsive f256k_config" dp' r] t
    by (simp add: NewDebugPort_def responsive_def sent_def frame_header_def
        frame_length_def be_bytes_def le_bytes_def upt_rec xor_bytes_def CMDWriteMem_def)
  with t show ?thesis by blast
qed

section \<open>The status bytes of a transfer\<close>

lemma takeWhile_sync_reads [simp]:
  "takeWhile (\<lambda>ev. ev \<noteq> ReadReq 2) (replicate k (ReadReq 1) @ evs) =
     replicate k (ReadReq 1) @ takeWhile (\<lambda>ev. ev \<noteq> ReadReq 2) evs"
  by (induction k) auto

lemma takeWhile_sync_reads_only [simp]:
  "takeWhile (\<lambda>ev. ev \<noteq> ReadReq 2) (replicate k (ReadReq 1)) = replicate k (ReadReq 1)"
  by (induction k) auto









section \<open>Sector commands\<close>

lemma request_packet_command:
  "request_packet c a [] 0 = command_frame c (unat a) 0"
  by (simp add: request_packet_frame command_frame_def frame_length_def xor_bytes_def)

lemma unat_byte_lt: "unat (x::byte) < 256"
  using unsigned_less[of x, where 'a=nat] by simp

lemma unat_block_address:
  "unat (push_bit 16 (ucast (x::byte)) :: u32) = unat x * 65536"
proof -
  have a: "unat (ucast x :: u32) = unat x"
    using unat_byte_lt[of x] by (simp add: unsigned_ucast_eq take_bit_nat_eq_self)
  have "unat x * 65536 < 2 ^ 32"
    using unat_byte_lt[of x] by simp
  then have "take_bit 32 (push_bit 16 (unat x)) = unat x * 65536"
    by (simp add: push_bit_eq_mult take_bit_nat_eq_self)
  then show ?thesis
    unfolding unsigned_push_bit_eq a by simp
qed

lemma unat_double_sector: "unat (s * 2 :: byte) = 2 * unat s mod 256"
  by (simp add: unat_word_ariths mult.commute)

lemma unat_double_sector_1: "unat (s * 2 + 1 :: byte) = (2 * unat s + 1) mod 256"
  by (simp add: unat_word_ariths mult.commute mod_simps)

lemma erase_packet_1:
  "request_packet CMDEraseSector (push_bit 16 (ucast (s * 2 :: byte))) [] 0 =
     command_frame CMDEraseSector (2 * unat s mod 256 * 65536) 0"
  by (simp add: request_packet_command unat_block_address unat_double_sector)

lemma erase_packet_2:
  "request_packet CMDEraseSector (push_bit 16 (ucast (s * 2 + 1 :: byte))) [] 0 =
     command_frame CMDEraseSector ((2 * unat s + 1) mod 256 * 65536) 0"
  by (simp only: request_packet_command unat_block_address unat_double_sector_1)

lemma program_packet:
  "request_packet CMDProgramSector (push_bit 16 (ucast (s * 2 :: byte))) [] 0 =
     command_frame CMDProgramSector (2 * unat s mod 256 * 65536) 0"
  by (simp add: request_packet_command unat_block_address unat_double_sector)

lemma EraseSector_sent:
  assumes "EraseSector dp s = Some (dp', r)"
  shows "\<exists>dp1 r1. transfer dp CMDEraseSector (push_bit 16 (ucast (s * 2))) [] 0 = Some (dp1, r1) \<and>
           (case r1 of
              Inl e \<Rightarrow> r \<noteq> None \<and>
                sent (conn dp') = sent (conn dp) @
                  [command_frame CMDEraseSector (2 * unat s mod 256 * 65536) 0]
            | Inr x \<Rightarrow>
                sent (conn dp') = sent (conn dp) @
                  [command_frame CMDEraseSector (2 * unat s mod 256 * 65536) 0,
                   command_frame CMDEraseSector ((2 * unat s + 1) mod 256 * 65536) 0])"
proof (cases "transfer dp CMDEraseSector (push_bit 16 (ucast (s * 2))) [] 0")
  case None
  with assms show ?thesis by (simp add: EraseSector_def)
next
  case (Some y)
  obtain dp1 r1 where y: "y = (dp1, r1)" by (cases y)
  note t1 = Some[unfolded y]
  note s1 = transfer_sent[OF t1, unfolded erase_packet_1]
  show ?thesis
  proof (cases r1)
    case (Inl e)
    with assms t1 have "dp' = dp1" "r \<noteq> None"
      by (auto simp: EraseSector_def)
    with t1 s1 Inl show ?thesis by simp
  next
    case (Inr x)
    with assms t1 obtain r2 where
      t2: "transfer dp1 CMDEraseSector (push_bit 16 (ucast (s * 2 + 1))) [] 0 = Some (dp', r2)"
      by (auto simp: EraseSector_def split: option.splits sum.splits)
    note s2 = transfer_sent[OF t2, unfolded erase_packet_2]
    from t1 s1 s2 Inr show ?thesis by simp
  qed
qed

lemma ProgramSector_sent:
  assumes "ProgramSector dp s = Some (dp', r)"
  shows "sent (conn dp') = sent (conn dp) @
           [command_frame CMDProgramSector (2 * unat s mod 256 * 65536) 0]"
proof -
  from assms obtain r1 where
    "transfer dp CMDProgramSector (push_bit 16 (ucast (s * 2))) [] 0 = Some (dp', r1)"
    by (auto simp: ProgramSector_def split: option.splits sum.splits)
  from transfer_sent[OF this, unfolded program_packet] show ?thesis .
qed


lemma block_address_of_nat:
  "push_bit 16 (ucast (x::byte)) = (of_nat (unat x * 65536) :: u32)"
proof -
  have "unat x * 65536 < 2 ^ LENGTH(32)"
    using unat_byte_lt[of x] by simp
  then have "unat (of_nat (unat x * 65536) :: u32) = unat x * 65536"
    by (simp only: unat_of_nat mod_less)
  then have "unat (push_bit 16 (ucast x) :: u32) = unat (of_nat (unat x * 65536) :: u32)"
    by (simp only: unat_block_address)
  then show ?thesis
    by (simp only: word_unat_eq_iff)
qed

text \<open>
  Claim C2, as amended. For every logical sector \<open>s\<close> of the full \<^verbatim>\<open>uint8\<close> range, an
  \<^verbatim>\<open>EraseSector(s)\<close> that returns has issued the erase-sector command with address
  \<open>((2s) mod 256) << 16\<close> and, if and only if that first transfer succeeded, after it the
  erase-sector command with address \<open>((2s+1) mod 256) << 16\<close>; when the first transfer
  failed it returns an error and has issued the first command only. A
  \<^verbatim>\<open>ProgramSector(s)\<close> that returns has issued exactly one program-sector command, with
  address \<open>((2s) mod 256) << 16\<close>. For \<open>s \<le> 127\<close> these addresses are \<open>(2s) << 16\<close> and
  \<open>(2s+1) << 16\<close>.
\<close>

theorem sector_commands:
  "(EraseSector dp s = Some (dp', r) \<longrightarrow>
      (\<exists>dp1 r1. transfer dp CMDEraseSector (of_nat (2 * unat s mod 256 * 65536)) [] 0
                   = Some (dp1, r1) \<and>
         (case r1 of
            Inl e \<Rightarrow> r \<noteq> None \<and>
              sent (conn dp') = sent (conn dp) @
                [command_frame CMDEraseSector (2 * unat s mod 256 * 65536) 0]
          | Inr x \<Rightarrow>
              sent (conn dp') = sent (conn dp) @
                [command_frame CMDEraseSector (2 * unat s mod 256 * 65536) 0,
                 command_frame CMDEraseSector ((2 * unat s + 1) mod 256 * 65536) 0])))
   \<and> (ProgramSector dp s = Some (dp'', r'') \<longrightarrow>
        sent (conn dp'') = sent (conn dp) @
          [command_frame CMDProgramSector (2 * unat s mod 256 * 65536) 0])
   \<and> (unat s \<le> 127 \<longrightarrow>
        2 * unat s mod 256 * 65536 = 2 * unat s * 2 ^ 16 \<and>
        (2 * unat s + 1) mod 256 * 65536 = (2 * unat s + 1) * 2 ^ 16)"
  using EraseSector_sent[of dp s dp' r] ProgramSector_sent[of dp s dp'' r'']
  by (simp add: block_address_of_nat unat_double_sector)


lemma EraseSector_returns_example:
  "\<not> Option.is_none (EraseSector (NewDebugPort responsive f256k_config) 1)
   \<and> \<not> Option.is_none (ProgramSector (NewDebugPort responsive f256k_config) 1)
   \<and> map_option snd (transfer (NewDebugPort responsive f256k_config) CMDEraseSector 0x20000 [] 0)
       = Some (Inr [])"
  by code_simp

theorem sector_commands_witness:
  "(\<exists>dp' r. EraseSector (NewDebugPort responsive f256k_config) 1 = Some (dp', r) \<and>
       sent (conn dp') = [[0x55, 0x12, 0x02, 0, 0, 0, 0, 0x45], [0x55, 0x12, 0x03, 0, 0, 0, 0, 0x44]])
   \<and> (\<exists>dp' r. ProgramSector (NewDebugPort responsive f256k_config) 1 = Some (dp', r) \<and>
       sent (conn dp') = [[0x55, 0x13, 0x02, 0, 0, 0, 0, 0x44]])
   \<and> 2 * unat (1 :: byte) mod 256 * 65536 = 2 * unat (1 :: byte) * 2 ^ 16"
proof -
  let ?dp = "NewDebugPort responsive f256k_config"
  obtain dp' r where e: "EraseSector ?dp 1 = Some (dp', r)"
    using EraseSector_returns_example by (auto simp: Option.is_none_def)
  obtain dp'' r'' where p: "ProgramSector ?dp 1 = Some (dp'', r'')"
    using EraseSector_returns_example by (auto simp: Option.is_none_def)
  note th = sector_commands[where dp="?dp" and s=1 and dp'=dp' and r=r and dp''=dp'' and r''=r'']
  have frames:
    "command_frame CMDEraseSector 131072 0 = [0x55, 0x12, 0x02, 0, 0, 0, 0, 0x45]"
    "command_frame CMDEraseSector 196608 0 = [0x55, 0x12, 0x03, 0, 0, 0, 0, 0x44]"
    "command_frame CMDProgramSector 131072 0 = [0x55, 0x13, 0x02, 0, 0, 0, 0, 0x44]"
    by (simp_all add: command_frame_def frame_header_def be_bytes_def le_bytes_def upt_rec
        xor_bytes_def CMDEraseSector_def CMDProgramSector_def)
  have s0: "sent (conn ?dp) = []"
    by (simp add: NewDebugPort_def responsive_def sent_def)
  from th e EraseSector_returns_example
  have "sent (conn dp') = [[0x55, 0x12, 0x02, 0, 0, 0, 0, 0x45], [0x55, 0x12, 0x03, 0, 0, 0, 0, 0x44]]"
    by (auto simp: frames s0)
  moreover from th p
  have "sent (conn dp'') = [[0x55, 0x13, 0x02, 0, 0, 0, 0, 0x44]]"
    by (simp add: frames s0)
  moreover from th have "2 * unat (1 :: byte) mod 256 * 65536 = 2 * unat (1 :: byte) * 2 ^ 16"
    by simp
  ultimately show ?thesis
    using e p by blast
qed

text \<open>
  Claim C2 as first stated fails twice. For sector 128 the product \<^verbatim>\<open>sector*2\<close> is taken
  in \<^verbatim>\<open>uint8\<close> and wraps to 0: the commands on the wire carry the addresses \<open>0\<close> and
  \<open>0x010000\<close>, not \<open>(2 * 128) << 16 = 0x1000000\<close> and \<open>0x1010000\<close>, and \<^verbatim>\<open>ProgramSector\<close> the
  address \<open>0\<close>. And on a connection whose writes fail, \<^verbatim>\<open>EraseSector(1)\<close> issues one
  command, not two.
\<close>

theorem sector_commands_counterexample:
  "issued_addresses (EraseSector (NewDebugPort responsive f256k_config) 128)
     = Some [0x000000, 0x010000]
   \<and> issued_addresses (ProgramSector (NewDebugPort responsive f256k_config) 128)
     = Some [0x000000]
   \<and> issued_addresses (EraseSector (NewDebugPort write_failing f256k_config) 1)
     = Some [0x020000]"
  by code_simp

section \<open>The alignment adapter\<close>

lemma round_up4_cases:
  "round_up4 m = (if m mod 4 = 0 then m else m + (4 - m mod 4))"
  unfolding round_up4_def by presburger

lemma round_up4_ge: "m \<le> round_up4 m"
  unfolding round_up4_def by presburger

lemma unat_mod_4: "unat (a mod 4 :: u32) = unat a mod 4"
  by (simp add: unat_mod_distrib)

lemma word_mod_4_of_nat: "(a mod 4 :: u32) = of_nat (unat a mod 4)"
  by (simp add: word_unat_eq_iff unat_mod_4 unat_of_nat)

lemma unat_of_nat_u32: "m < 2 ^ 32 \<Longrightarrow> unat (of_nat m :: u32) = m"
  by (simp add: unat_of_nat)

lemma of_nat_mod_4_u32: "m < 2 ^ 32 \<Longrightarrow> (of_nat m :: u32) mod 4 = of_nat (m mod 4)"
  by (simp add: word_unat_eq_iff unat_mod_distrib unat_of_nat)

lemma of_nat_u32_eq_0: "m < 2 ^ 32 \<Longrightarrow> ((of_nat m :: u32) = 0) = (m = 0)"
  by (simp add: word_unat_eq_iff unat_of_nat)

lemma of_nat_u32_inj: "m < 2 ^ 32 \<Longrightarrow> k < 2 ^ 32 \<Longrightarrow> ((of_nat m :: u32) = of_nat k) = (m = k)"
  by (simp add: word_unat_eq_iff unat_of_nat)

lemma ucast_of_nat_u16: "(ucast (of_nat m :: u32) :: u16) = of_nat m"
  by (simp add: word_unat_eq_iff unsigned_ucast_eq unat_of_nat take_bit_eq_mod mod_mod_cancel)

lemma adjusted_size_word:
  assumes "length data + 7 < 2 ^ 32"
  shows "(of_nat (length data) :: u32) + address mod 4 = of_nat (length data + unat address mod 4)"
    and "((of_nat (length data + unat address mod 4) :: u32) mod 4 > 0)
           = ((length data + unat address mod 4) mod 4 \<noteq> 0)"
    and "(length data + unat address mod 4) mod 4 \<noteq> 0 \<Longrightarrow>
         (of_nat (length data + unat address mod 4) :: u32)
           + (4 - of_nat (length data + unat address mod 4) mod 4)
         = of_nat (round_up4 (length data + unat address mod 4))"
    and "(length data + unat address mod 4) mod 4 = 0 \<Longrightarrow>
         (of_nat (length data + unat address mod 4) :: u32)
         = of_nat (round_up4 (length data + unat address mod 4))"
proof -
  let ?m = "length data + unat address mod 4"
  have m: "?m < 2 ^ 32"
    using assms by simp
  show "(of_nat (length data) :: u32) + address mod 4 = of_nat ?m"
    by (simp add: word_mod_4_of_nat)
  have c: "(of_nat ?m :: u32) mod 4 = of_nat (?m mod 4)"
    using of_nat_mod_4_u32[OF m] .
  have k: "?m mod 4 < 2 ^ 32"
    by simp
  show "((of_nat ?m :: u32) mod 4 > 0) = (?m mod 4 \<noteq> 0)"
    using of_nat_u32_eq_0[OF k] unfolding c word_gt_0 by simp
  show "(of_nat ?m :: u32) + (4 - of_nat ?m mod 4) = of_nat (round_up4 ?m)" if "?m mod 4 \<noteq> 0"
  proof -
    have "(of_nat (?m + (4 - ?m mod 4)) :: u32) = of_nat ?m + (4 - of_nat (?m mod 4))"
      by (simp add: of_nat_diff)
    then show ?thesis
      using that unfolding c by (simp add: round_up4_cases)
  qed
  show "(of_nat ?m :: u32) = of_nat (round_up4 ?m)" if "?m mod 4 = 0"
    using that by (simp add: round_up4_cases)
qed

lemma aligned_condition:
  assumes "length data + 7 < 2 ^ 32"
  shows "((address::u32) mod 4 = 0 \<and> (of_nat (length data) :: u32) mod 4 = 0)
           = (unat address mod 4 = 0 \<and> length data mod 4 = 0)"
proof -
  have l: "length data < 2 ^ 32" using assms by simp
  have k: "length data mod 4 < 2 ^ 32" by simp
  have "(address mod 4 = 0) = (unat (address mod 4) = 0)"
    by (simp only: unat_eq_0)
  then have a: "(address mod 4 = 0) = (unat address mod 4 = 0)"
    by (simp only: unat_mod_4)
  have b: "((of_nat (length data) :: u32) mod 4 = 0) = (length data mod 4 = 0)"
    unfolding of_nat_mod_4_u32[OF l] of_nat_u32_eq_0[OF k] ..
  show ?thesis unfolding a b ..
qed

lemma adjusted_size_eq:
  assumes "length data + 7 < 2 ^ 32"
  shows "(if ((of_nat (length data) :: u32) + address mod 4) mod 4 > 0
          then (of_nat (length data) :: u32) + address mod 4
                 + (4 - ((of_nat (length data) :: u32) + address mod 4) mod 4)
          else (of_nat (length data) :: u32) + address mod 4)
         = of_nat (round_up4 (length data + unat address mod 4))"
proof (cases "(length data + unat address mod 4) mod 4 = 0")
  case True
  show ?thesis
    unfolding adjusted_size_word(1)[OF assms] adjusted_size_word(2)[OF assms]
    using adjusted_size_word(4)[OF assms True] True by simp
next
  case False
  show ?thesis
    unfolding adjusted_size_word(1)[OF assms] adjusted_size_word(2)[OF assms]
    using adjusted_size_word(3)[OF assms False] False by simp
qed

lemma WriteBlock32_aligned:
  assumes "length data + 7 < 2 ^ 32" and "unat address mod 4 = 0 \<and> length data mod 4 = 0"
  shows "WriteBlock32 dp address data =
           (case transfer dp CMDWriteMem address data 0 of
              None \<Rightarrow> None
            | Some (dp1, Inl e) \<Rightarrow> Some (dp1, Some e)
            | Some (dp1, Inr bs) \<Rightarrow> Some (dp1, None))"
  using assms(2) unfolding WriteBlock32_def Let_def aligned_condition[OF assms(1)]
  by (simp only: if_True simp_thms)

lemma WriteBlock32_unaligned:
  assumes "length data + 7 < 2 ^ 32" and "\<not> (unat address mod 4 = 0 \<and> length data mod 4 = 0)"
  shows "WriteBlock32 dp address data =
           (case ReadBlock dp (address - address mod 4)
                   (of_nat (round_up4 (length data + unat address mod 4))) of
              None \<Rightarrow> None
            | Some (dp1, Inl e) \<Rightarrow>
                Some (dp1, Some (wrap ''failed to read block for alignment'' e))
            | Some (dp1, Inr block) \<Rightarrow>
                if (of_nat (length block) :: u32)
                     \<noteq> of_nat (round_up4 (length data + unat address mod 4))
                then Some (dp1, Some (Error ''read returned fewer or more bytes than expected''))
                else
                  (case copy_at block (unat address mod 4) data of
                     Inl e \<Rightarrow> Some (dp1, Some e)
                   | Inr block' \<Rightarrow>
                      (case transfer dp1 CMDWriteMem (address - address mod 4) block' 0 of
                         None \<Rightarrow> None
                       | Some (dp2, Inl e) \<Rightarrow>
                           Some (dp2, Some (wrap ''failed to write aligned block'' e))
                       | Some (dp2, Inr bs) \<Rightarrow> Some (dp2, None))))"
  using assms(2)
  unfolding WriteBlock32_def Let_def aligned_condition[OF assms(1)] adjusted_size_eq[OF assms(1)]
    ucast_of_nat_u16 unat_mod_4
  by (simp only: if_False simp_thms)

lemma transfer_read_length:
  assumes "transfer dp c a d n = Some (dp', Inr bs)"
  shows "length bs = unat n"
  using assms
  unfolding transfer_def conn_Write_def Let_def
  by (auto simp: conn_Read_def word_greater_zero_iff
      split: option.splits prod.splits list.splits if_splits)

lemma copy_at_overlay:
  assumes "off + length data \<le> length block"
  shows "copy_at block off data = Inr (overlay block off data)"
proof -
  have "take off block @ data @ drop (off + length data) block = overlay block off data"
  proof (rule nth_equalityI)
    show "length (take off block @ data @ drop (off + length data) block)
            = length (overlay block off data)"
      using assms by (simp add: overlay_def)
  next
    fix i
    assume "i < length (take off block @ data @ drop (off + length data) block)"
    then have i: "i < length block"
      using assms by simp
    show "(take off block @ data @ drop (off + length data) block) ! i
            = overlay block off data ! i"
      using assms i by (auto simp: overlay_def nth_append)
  qed
  then show ?thesis
    using assms by (simp add: copy_at_def)
qed

lemma request_packet_read:
  "request_packet c a [] n = command_frame c (unat a) (unat n)"
  by (simp add: request_packet_frame command_frame_def frame_length_def xor_bytes_def)

lemma round_up4_le: "round_up4 m \<le> m + 3"
  unfolding round_up4_def by presburger

lemma unat_of_nat_u16: "unat (of_nat m :: u16) = m mod 65536"
  by (simp add: unat_of_nat)

lemma WriteBlock32_direct_sent:
  assumes "length data + 7 < 2 ^ 32"
    and "WriteBlock32 dp address data = Some (dp', r)"
    and "unat address mod 4 = 0 \<and> length data mod 4 = 0"
  shows "sent (conn dp') = sent (conn dp) @ [request_packet CMDWriteMem address data 0]"
proof -
  from assms(2) obtain r1 where "transfer dp CMDWriteMem address data 0 = Some (dp', r1)"
    unfolding WriteBlock32_aligned[OF assms(1,3)]
    by (auto split: option.splits sum.splits)
  from transfer_sent[OF this] show ?thesis .
qed

lemma WriteBlock32_rmw_sent:
  assumes b: "length data + 7 < 2 ^ 32"
    and w: "WriteBlock32 dp address data = Some (dp', r)"
    and u: "\<not> (unat address mod 4 = 0 \<and> length data mod 4 = 0)"
  shows "\<exists>dp1 rd.
           ReadBlock dp (aligned_address address) (of_nat (aligned_length address data))
             = Some (dp1, rd) \<and>
           (case rd of
              Inl e \<Rightarrow> r \<noteq> None \<and>
                sent (conn dp') = sent (conn dp) @
                  [command_frame CMDReadMem (unat (aligned_address address))
                     (aligned_length address data mod 65536)]
            | Inr block \<Rightarrow>
                length block = aligned_length address data mod 65536 \<and>
                (if aligned_length address data < 65536 then
                   sent (conn dp') = sent (conn dp) @
                     [command_frame CMDReadMem (unat (aligned_address address))
                        (aligned_length address data mod 65536),
                      request_packet CMDWriteMem (aligned_address address)
                        (overlay block (aligned_offset address) data) 0]
                 else r \<noteq> None \<and>
                   sent (conn dp') = sent (conn dp) @
                     [command_frame CMDReadMem (unat (aligned_address address))
                        (aligned_length address data mod 65536)]))"
proof -
  let ?off = "unat address mod 4"
  let ?alen = "round_up4 (length data + ?off)"
  let ?aaddr = "address - address mod 4"
  let ?rf = "command_frame CMDReadMem (unat ?aaddr) (?alen mod 65536)"
  have aaddr: "aligned_address address = ?aaddr"
    by (simp only: aligned_address_def word_mod_4_of_nat)
  have alen32: "?alen < 2 ^ 32"
    using b round_up4_le[of "length data + ?off"] by simp
  have fits: "?off + length data \<le> ?alen"
    using round_up4_ge[of "length data + ?off"] by simp
  note w' = w[unfolded WriteBlock32_unaligned[OF b u]]
  show ?thesis
  proof (cases "ReadBlock dp ?aaddr (of_nat ?alen)")
    case None
    with w' show ?thesis by simp
  next
    case (Some y)
    obtain dp1 rd where y: "y = (dp1, rd)" by (cases y)
    note rb = Some[unfolded y]
    have s1: "sent (conn dp1) = sent (conn dp) @ [?rf]"
      using transfer_sent[OF rb[unfolded ReadBlock_def]]
      by (simp only: request_packet_read unat_of_nat_u16)
    show ?thesis
    proof (cases rd)
      case (Inl e)
      with w' rb have "dp' = dp1" "r \<noteq> None"
        by auto
      with rb s1 Inl show ?thesis
        unfolding aligned_length_def aligned_offset_def aaddr by simp
    next
      case (Inr block)
      have len: "length block = ?alen mod 65536"
        using transfer_read_length[OF rb[unfolded ReadBlock_def Inr]]
        by (simp only: unat_of_nat_u16)
      have blk32: "length block < 2 ^ 32"
        unfolding len using mod_less_divisor[of 65536 ?alen] by simp
      have "(length block = ?alen) = (?alen < 65536)"
        unfolding len using mod_less_divisor[of 65536 ?alen] by auto
      then have neq: "((of_nat (length block) :: u32) \<noteq> of_nat ?alen) = (\<not> ?alen < 65536)"
        using of_nat_u32_inj[OF blk32 alen32] by simp
      show ?thesis
      proof (cases "?alen < 65536")
        case True
        then have lb: "length block = ?alen"
          using len by simp
        have cp: "copy_at block ?off data = Inr (overlay block ?off data)"
          using copy_at_overlay[of ?off data block] fits lb by simp
        from w' rb Inr neq True cp obtain r2 where
          t2: "transfer dp1 CMDWriteMem ?aaddr (overlay block ?off data) 0 = Some (dp', r2)"
          by (auto split: option.splits sum.splits)
        from transfer_sent[OF t2] s1 rb Inr len True show ?thesis
          unfolding aligned_length_def aligned_offset_def aaddr by simp
      next
        case False
        with w' rb Inr neq have "dp' = dp1" "r \<noteq> None"
          by auto
        with rb s1 Inr len False show ?thesis
          unfolding aligned_length_def aligned_offset_def aaddr by simp
      qed
    qed
  qed
qed

text \<open>
  Claim C3, as amended. For every address and every data shorter than \<open>2^32 - 7\<close> bytes,
  a \<^verbatim>\<open>WriteBlock32\<close> that returns has done the following. If \<open>address % 4 = 0\<close> and
  \<open>len(data) % 4 = 0\<close>, it has issued exactly one direct write of the data at the address.
  Otherwise it has issued exactly one read at \<open>alignedAddress = address - address % 4\<close>
  whose 16-bit length field is \<open>alignedLength mod 65536\<close>, with
  \<open>alignedLength = roundUpToMultipleOf4(len(data) + address % 4)\<close>. If that read fails,
  \<^verbatim>\<open>WriteBlock32\<close> fails and has issued nothing else. If it succeeds, it has returned
  \<open>alignedLength mod 65536\<close> bytes: when \<open>alignedLength \<le> 65535\<close> exactly one write back to
  \<open>alignedAddress\<close> follows, whose buffer is the read buffer with the data laid over it at
  offset \<open>address % 4\<close>; when \<open>alignedLength > 65535\<close> the read has returned fewer bytes
  than \<open>alignedLength\<close> and \<^verbatim>\<open>WriteBlock32\<close> fails without writing.
\<close>

theorem WriteBlock32_requests:
  "length data + 7 < 2 ^ 32 \<Longrightarrow> WriteBlock32 dp address data = Some (dp', r) \<Longrightarrow>
   (if aligned_offset address = 0 \<and> length data mod 4 = 0 then
      sent (conn dp') = sent (conn dp) @ [request_packet CMDWriteMem address data 0]
    else
      (\<exists>dp1 rd.
           ReadBlock dp (aligned_address address) (of_nat (aligned_length address data))
             = Some (dp1, rd) \<and>
           (case rd of
              Inl e \<Rightarrow> r \<noteq> None \<and>
                sent (conn dp') = sent (conn dp) @
                  [command_frame CMDReadMem (unat (aligned_address address))
                     (aligned_length address data mod 65536)]
            | Inr block \<Rightarrow>
                length block = aligned_length address data mod 65536 \<and>
                (if aligned_length address data < 65536 then
                   sent (conn dp') = sent (conn dp) @
                     [command_frame CMDReadMem (unat (aligned_address address))
                        (aligned_length address data mod 65536),
                      request_packet CMDWriteMem (aligned_address address)
                        (overlay block (aligned_offset address) data) 0]
                 else r \<noteq> None \<and>
                   sent (conn dp') = sent (conn dp) @
                     [command_frame CMDReadMem (unat (aligned_address address))
                        (aligned_length address data mod 65536)]))))"
  using WriteBlock32_direct_sent[of data dp address dp' r]
    WriteBlock32_rmw_sent[of data dp address dp' r]
  by (simp add: aligned_offset_def)

lemma WriteBlock32_examples:
  "\<not> Option.is_none (WriteBlock32 (NewDebugPort responsive f256k_config) 1 [1, 2])
   \<and> map_option snd (ReadBlock (NewDebugPort responsive f256k_config) 0 4)
       = Some (Inr [0, 0, 0, 0])
   \<and> \<not> Option.is_none (WriteBlock32 (NewDebugPort responsive f256k_config) 4 [1, 2, 3, 4])"
  by code_simp

theorem WriteBlock32_requests_witness:
  "(\<exists>dp' r. WriteBlock32 (NewDebugPort responsive f256k_config) 1 [1, 2] = Some (dp', r) \<and>
       sent (conn dp') =
         [[0x55, 0x00, 0, 0, 0, 0, 4, 0x55], [0x55, 0x01, 0, 0, 0, 0, 4, 0, 1, 2, 0, 0x57]])
   \<and> (\<exists>dp' r. WriteBlock32 (NewDebugPort responsive f256k_config) 4 [1, 2, 3, 4] = Some (dp', r) \<and>
       sent (conn dp') = [[0x55, 0x01, 0, 0, 4, 0, 4, 1, 2, 3, 4, 0x54]])"
proof
  let ?dp = "NewDebugPort responsive f256k_config"
  have s0: "sent (conn ?dp) = []"
    by (simp add: NewDebugPort_def responsive_def sent_def)
  obtain dp' r where w: "WriteBlock32 ?dp 1 [1, 2] = Some (dp', r)"
    using WriteBlock32_examples by (auto simp: Option.is_none_def)
  have al: "aligned_address 1 = 0" "aligned_length 1 [1, 2] = 4" "aligned_offset 1 = 1"
    by (simp_all add: aligned_address_def aligned_length_def aligned_offset_def round_up4_def)
  have ov: "overlay [0, 0, 0, 0] (Suc 0) [1, 2] = [0, 1, 2, 0]"
    by (simp add: overlay_def upt_rec)
  have fr: "command_frame CMDReadMem 0 4 = [0x55, 0x00, 0, 0, 0, 0, 4, 0x55]"
    "request_packet CMDWriteMem 0 [0, 1, 2, 0] 0 = [0x55, 0x01, 0, 0, 0, 0, 4, 0, 1, 2, 0, 0x57]"
    by (simp_all add: request_packet_frame command_frame_def frame_header_def frame_length_def
        be_bytes_def le_bytes_def upt_rec xor_bytes_def CMDReadMem_def CMDWriteMem_def)
  have "length [1, 2 :: byte] + 7 < (2::nat) ^ 32"
    by simp
  from WriteBlock32_requests[OF this w] WriteBlock32_examples
  have "sent (conn dp') =
         [[0x55, 0x00, 0, 0, 0, 0, 4, 0x55], [0x55, 0x01, 0, 0, 0, 0, 4, 0, 1, 2, 0, 0x57]]"
    by (auto simp: al s0 ov fr)
  with w show "\<exists>dp' r. WriteBlock32 ?dp 1 [1, 2] = Some (dp', r) \<and>
       sent (conn dp') =
         [[0x55, 0x00, 0, 0, 0, 0, 4, 0x55], [0x55, 0x01, 0, 0, 0, 0, 4, 0, 1, 2, 0, 0x57]]"
    by blast
next
  let ?dp = "NewDebugPort responsive f256k_config"
  have s0: "sent (conn ?dp) = []"
    by (simp add: NewDebugPort_def responsive_def sent_def)
  obtain dp' r where w: "WriteBlock32 ?dp 4 [1, 2, 3, 4] = Some (dp', r)"
    using WriteBlock32_examples by (auto simp: Option.is_none_def)
  have al: "aligned_offset 4 = 0"
    by (simp add: aligned_offset_def)
  have fr: "request_packet CMDWriteMem 4 [1, 2, 3, 4] 0
              = [0x55, 0x01, 0, 0, 4, 0, 4, 1, 2, 3, 4, 0x54]"
    by (simp add: request_packet_frame frame_header_def frame_length_def
        be_bytes_def le_bytes_def upt_rec xor_bytes_def CMDWriteMem_def)
  have "length [1, 2, 3, 4 :: byte] + 7 < (2::nat) ^ 32"
    by simp
  from WriteBlock32_requests[OF this w]
  have "sent (conn dp') = [[0x55, 0x01, 0, 0, 4, 0, 4, 1, 2, 3, 4, 0x54]]"
    by (simp add: al s0 fr)
  with w show "\<exists>dp' r. WriteBlock32 ?dp 4 [1, 2, 3, 4] = Some (dp', r) \<and>
       sent (conn dp') = [[0x55, 0x01, 0, 0, 4, 0, 4, 1, 2, 3, 4, 0x54]]"
    by blast
qed

end
